theory Spec2Isabelle
  imports Complex_Main "HOL-Library.Char_ord" "HOL-Library.List_Lexorder" "HOL-Library.Multiset"
begin

section \<open>The dashboard of \<^verbatim>\<open>streamlit_app.py\<close>\<close>

text \<open>
  The script loads two tables, joins them, filters the join by the side bar's widgets and
  shows three grouped tables. A data frame is a list of rows (a record per row, in the
  frame's row order); a cell that pandas holds as NaN, NaT or None is \<open>None\<close>. A
  number is the rational value of a finite float64 or int64; infinities are outside the
  model.

  What the script leaves to the library is a parameter of the model:
  \<^item> \<open>to_numeric\<close> and \<open>to_datetime\<close>, for
    \<^verbatim>\<open>pd.to_numeric(..., errors='coerce')\<close> and
    \<^verbatim>\<open>pd.to_datetime(..., dayfirst=True, errors='coerce')\<close>: total functions on
    the text of a cell that give \<open>None\<close> where the cell does not parse;
  \<^item> the kernel that adds up the values of a group, which depends on the dtype of the
    column: an int64 column is added with wrap-around, a float64 column with rounding.
    \<open>int64_sum\<close> and \<open>float64_sum\<close> below are the two kernels;
  \<^item> the order that \<^verbatim>\<open>sort_values\<close> gives to rows with equal totals (its default
    kind, quicksort, promises none): a ranking \<open>tie\<close> of the rows of the table.
\<close>

subsection \<open>Data\<close>

datatype error = ValueError | TypeError | IndexError

datatype dtype = Int32 | Float64

text \<open>A restaurant key as the reader of the file returns it: a number or a text.\<close>

datatype key = IntKey int | TextKey string

record timestamp =
  ts_year :: int
  ts_month :: int
  ts_day :: int

text \<open>A row of \<^verbatim>\<open>data/Actuals_data.csv\<close> as read, before the coercions.\<close>

record csv_row =
  csv_Rest_Key :: "key option"
  csv_Date :: string
  csv_Sales :: string
  csv_Customers :: string

text \<open>
  A row of the columns Rest_Key, Country, City and Restaurant_Name of
  \<^verbatim>\<open>location_df\<close>, the ones that the merge is given.
\<close>

record location =
  loc_Rest_Key :: "key option"
  loc_Country :: "string option"
  loc_City :: "string option"
  loc_Restaurant_Name :: "string option"

text \<open>A row of \<^verbatim>\<open>actuals_df\<close> after the coercions, with the derived columns.\<close>

record actual =
  Rest_Key :: "key option"
  Date :: "timestamp option"
  Sales :: "rat option"
  Customers :: "rat option"
  Year :: "int option"
  Month :: "int option"

text \<open>A row of \<^verbatim>\<open>merged_df\<close>.\<close>

record enriched = actual +
  Country :: "string option"
  City :: "string option"
  Restaurant_Name :: "string option"

text \<open>The state of the four side bar widgets.\<close>

record selection =
  selected_year_range :: "int \<times> int"
  selected_countries :: "string list"
  selected_cities :: "string list"
  selected_restaurants :: "string list"

record monthly_row =
  MonthLabel :: string
  TotalSales :: rat
  RestaurantCount :: nat

record tables =
  monthly_summary_table :: "monthly_row list"
  customers_by_restaurant_table :: "(string \<times> rat) list"
  customers_by_country_table :: "(string \<times> rat) list"

subsection \<open>\<^verbatim>\<open>load_data\<close>\<close>

definition coerce_row ::
  "(string \<Rightarrow> rat option) \<Rightarrow> (string \<Rightarrow> timestamp option) \<Rightarrow> csv_row \<Rightarrow> actual" where
  "coerce_row to_numeric to_datetime c =
     (let d = to_datetime (csv_Date c) in
      \<lparr>Rest_Key = csv_Rest_Key c,
       Date = d,
       Sales = to_numeric (csv_Sales c),
       Customers = to_numeric (csv_Customers c),
       Year = map_option ts_year d,
       Month = map_option ts_month d\<rparr>)"

definition attach ::
  "actual \<Rightarrow> string option \<Rightarrow> string option \<Rightarrow> string option \<Rightarrow> enriched" where
  "attach a co ci rn =
     \<lparr>Rest_Key = Rest_Key a, Date = Date a, Sales = Sales a, Customers = Customers a,
      Year = Year a, Month = Month a, Country = co, City = ci, Restaurant_Name = rn\<rparr>"

text \<open>
  The rows that a left join gives to one row of the left frame: one per location row with
  the same key (in the order of the location rows), or one with null location columns
  when no location row has the key. pandas matches a null key with a null key.
\<close>

definition left_rows :: "actual \<Rightarrow> location list \<Rightarrow> enriched list" where
  "left_rows a location_df =
     (let ms = filter (\<lambda>l. loc_Rest_Key l = Rest_Key a) location_df in
      if ms = [] then [attach a None None None]
      else map (\<lambda>l. attach a (loc_Country l) (loc_City l) (loc_Restaurant_Name l)) ms)"

text \<open>
  Before it joins, \<^verbatim>\<open>pd.merge\<close> compares the dtypes of the two key columns and
  raises ValueError ("You are trying to merge on int64 and object columns") when one is
  a numeric column and the other a column of text. A key column that is not empty and
  has no text cell is numeric (int64, or float64 when a cell is null); one with text and
  no number is a column of text. A column that mixes numbers and text is joined value by
  value.
\<close>

definition is_text :: "key option \<Rightarrow> bool" where
  "is_text c = (case c of Some (TextKey _) \<Rightarrow> True | _ \<Rightarrow> False)"

definition is_number :: "key option \<Rightarrow> bool" where
  "is_number c = (case c of Some (IntKey _) \<Rightarrow> True | _ \<Rightarrow> False)"

definition numeric_keys :: "key option list \<Rightarrow> bool" where
  "numeric_keys col \<longleftrightarrow> col \<noteq> [] \<and> \<not> list_ex is_text col"

definition text_keys :: "key option list \<Rightarrow> bool" where
  "text_keys col \<longleftrightarrow> list_ex is_text col \<and> \<not> list_ex is_number col"

definition keys_clash :: "key option list \<Rightarrow> key option list \<Rightarrow> bool" where
  "keys_clash lk rk \<longleftrightarrow> (numeric_keys lk \<and> text_keys rk) \<or> (text_keys lk \<and> numeric_keys rk)"

text \<open>
  \<^verbatim>\<open>pd.merge(actuals_df, location_df[...], on='Rest_Key', how='left')\<close>: the rows of
  the left frame in their order, each with its \<open>left_rows\<close>.
\<close>

definition join_rows :: "actual list \<Rightarrow> location list \<Rightarrow> enriched list" where
  "join_rows actuals_df location_df = concat (map (\<lambda>a. left_rows a location_df) actuals_df)"

definition merge_left :: "actual list \<Rightarrow> location list \<Rightarrow> error + enriched list" where
  "merge_left actuals_df location_df =
     (if keys_clash (map Rest_Key actuals_df) (map loc_Rest_Key location_df)
      then Inl ValueError
      else Inr (join_rows actuals_df location_df))"

definition load_data ::
  "(string \<Rightarrow> rat option) \<Rightarrow> (string \<Rightarrow> timestamp option) \<Rightarrow> csv_row list \<Rightarrow> location list
     \<Rightarrow> error + actual list \<times> location list \<times> enriched list" where
  "load_data to_numeric to_datetime csv xlsx =
     (let actuals_df = map (coerce_row to_numeric to_datetime) csv in
      case merge_left actuals_df xlsx of
        Inl e \<Rightarrow> Inl e
      | Inr merged_df \<Rightarrow> Inr (actuals_df, xlsx, merged_df))"

text \<open>
  The dtype of the \<^verbatim>\<open>Month\<close> column. \<^verbatim>\<open>Series.dt.month\<close> gives an integer
  column when every date is present and a float64 column (NaN for NaT) as soon as one date
  is missing. The merge and the boolean masks keep a column's dtype, so the filtered frame
  has the dtype of the whole \<^verbatim>\<open>merged_df\<close> column, whatever rows the filter keeps.
\<close>

definition Month_dtype :: "enriched list \<Rightarrow> dtype" where
  "Month_dtype merged_df = (if list_ex (\<lambda>r. Date r = None) merged_df then Float64 else Int32)"

subsection \<open>The year bounds of the slider\<close>

text \<open>
  \<^verbatim>\<open>int(merged_df['Year'].min()), int(merged_df['Year'].max())\<close>: \<open>min\<close> and
  \<open>max\<close> skip the nulls and are NaN when nothing is left, and \<open>int(nan)\<close> raises
  ValueError.
\<close>

definition year_bounds :: "enriched list \<Rightarrow> error + (int \<times> int)" where
  "year_bounds merged_df =
     (case List.map_filter Year merged_df of
        [] \<Rightarrow> Inl ValueError
      | y # ys \<Rightarrow> Inr (fold min ys y, fold max ys y))"

subsection \<open>The filter\<close>

text \<open>A comparison with a null cell is False.\<close>

definition year_mask :: "int \<times> int \<Rightarrow> enriched \<Rightarrow> bool" where
  "year_mask rng r =
     (case Year r of None \<Rightarrow> False | Some y \<Rightarrow> fst rng \<le> y \<and> y \<le> snd rng)"

text \<open>
  \<^verbatim>\<open>col.isin(values)\<close> for a list of strings: the widgets' options come from
  \<^verbatim>\<open>dropna().unique()\<close>, so the selected values are never null and a null cell is
  in none of them.
\<close>

definition isin :: "(enriched \<Rightarrow> string option) \<Rightarrow> string list \<Rightarrow> enriched \<Rightarrow> bool" where
  "isin col vals r = (case col r of None \<Rightarrow> False | Some v \<Rightarrow> v \<in> set vals)"

definition filtered_df :: "enriched list \<Rightarrow> selection \<Rightarrow> enriched list" where
  "filtered_df merged_df sel =
     (let f0 = filter (year_mask (selected_year_range sel)) merged_df;
          f1 = (if selected_countries sel \<noteq> []
                then filter (isin Country (selected_countries sel)) f0 else f0);
          f2 = (if selected_cities sel \<noteq> []
                then filter (isin City (selected_cities sel)) f1 else f1);
          f3 = (if selected_restaurants sel \<noteq> []
                then filter (isin Restaurant_Name (selected_restaurants sel)) f2 else f2)
      in f3)"

subsection \<open>The aggregations\<close>

text \<open>
  \<^verbatim>\<open>df.groupby(key)\<close> with its defaults \<^verbatim>\<open>sort=True, dropna=True\<close>: one group
  per distinct non-null key, the groups in ascending order of the key.
\<close>

definition group_keys :: "('r \<Rightarrow> 'k option) \<Rightarrow> 'r list \<Rightarrow> ('k::linorder) list" where
  "group_keys key rows = sort (remdups (List.map_filter key rows))"

definition group_rows :: "('r \<Rightarrow> 'k option) \<Rightarrow> 'k \<Rightarrow> 'r list \<Rightarrow> 'r list" where
  "group_rows key k rows = filter (\<lambda>r. key r = Some k) rows"

text \<open>
  \<^verbatim>\<open>.sum()\<close> of a column of a group: the kernel \<open>ksum\<close> of the column's dtype,
  given the non-null values of the group in the order of the rows (the nulls are skipped).
\<close>

definition nansum :: "(rat list \<Rightarrow> rat) \<Rightarrow> ('r \<Rightarrow> rat option) \<Rightarrow> 'r list \<Rightarrow> rat" where
  "nansum ksum col rows = ksum (List.map_filter col rows)"

text \<open>\<^verbatim>\<open>.nunique()\<close> counts the distinct non-null values.\<close>

definition nunique :: "('r \<Rightarrow> 'v option) \<Rightarrow> 'r list \<Rightarrow> nat" where
  "nunique col rows = length (remdups (List.map_filter col rows))"

definition groupby_sum ::
  "(rat list \<Rightarrow> rat) \<Rightarrow> ('r \<Rightarrow> 'k option) \<Rightarrow> ('r \<Rightarrow> rat option) \<Rightarrow> 'r list
     \<Rightarrow> (('k::linorder) \<times> rat) list" where
  "groupby_sum ksum key col rows =
     map (\<lambda>k. (k, nansum ksum col (group_rows key k rows))) (group_keys key rows)"

definition groupby_nunique ::
  "('r \<Rightarrow> 'k option) \<Rightarrow> ('r \<Rightarrow> 'v option) \<Rightarrow> 'r list \<Rightarrow> (('k::linorder) \<times> nat) list" where
  "groupby_nunique key col rows =
     map (\<lambda>k. (k, nunique col (group_rows key k rows))) (group_keys key rows)"

definition sales_by_month :: "(rat list \<Rightarrow> rat) \<Rightarrow> enriched list \<Rightarrow> (int \<times> rat) list" where
  "sales_by_month ksum filtered = groupby_sum ksum Month Sales filtered"

definition restaurants_by_month :: "enriched list \<Rightarrow> (int \<times> nat) list" where
  "restaurants_by_month filtered = groupby_nunique Month Rest_Key filtered"

definition month_names :: "string list" where
  "month_names =
     [''Jan'', ''Feb'', ''Mar'', ''Apr'', ''May'', ''Jun'',
      ''Jul'', ''Aug'', ''Sep'', ''Oct'', ''Nov'', ''Dec'']"

text \<open>
  \<^verbatim>\<open>month_names[m-1]\<close>. The elements of a float64 index are Python floats, and a
  list index that is a float raises TypeError. For an integer, a negative index counts
  from the end and an index outside the list raises IndexError.
\<close>

definition month_label :: "dtype \<Rightarrow> int \<Rightarrow> error + string" where
  "month_label dt m =
     (case dt of
        Float64 \<Rightarrow> Inl TypeError
      | Int32 \<Rightarrow>
          (let i = m - 1; n = int (length month_names) in
           if 0 \<le> i \<and> i < n then Inr (month_names ! nat i)
           else if - n \<le> i \<and> i < 0 then Inr (month_names ! nat (n + i))
           else Inl IndexError))"

text \<open>A list comprehension stops at the first element that raises.\<close>

fun comprehension :: "('a \<Rightarrow> error + 'b) \<Rightarrow> 'a list \<Rightarrow> error + 'b list" where
  "comprehension f [] = Inr []"
| "comprehension f (x # xs) =
     (case f x of
        Inl e \<Rightarrow> Inl e
      | Inr y \<Rightarrow> (case comprehension f xs of Inl e \<Rightarrow> Inl e | Inr ys \<Rightarrow> Inr (y # ys)))"

text \<open>
  \<^verbatim>\<open>pd.DataFrame({...})\<close> of three columns; it raises ValueError when the columns
  differ in length.
\<close>

definition monthly_summary ::
  "dtype \<Rightarrow> (rat list \<Rightarrow> rat) \<Rightarrow> enriched list \<Rightarrow> error + monthly_row list" where
  "monthly_summary dt ksum filtered =
     (let sbm = sales_by_month ksum filtered; rbm = restaurants_by_month filtered in
      case comprehension (month_label dt) (map fst sbm) of
        Inl e \<Rightarrow> Inl e
      | Inr labels \<Rightarrow>
          if length labels = length sbm \<and> length sbm = length rbm
          then Inr (map (\<lambda>(l, s, c). \<lparr>MonthLabel = l, TotalSales = s, RestaurantCount = c\<rparr>)
                     (zip labels (zip (map snd sbm) (map snd rbm))))
          else Inl ValueError)"

text \<open>
  \<^verbatim>\<open>sort_values(by='Total Customers', ascending=False)\<close>: the rows in descending
  order of the total. The order of rows with equal totals is the sorting kernel's; it is
  given by \<open>tie\<close>, which ranks the rows of the table it is handed (rows of equal total
  and equal rank keep the order of the table). Every order of the tied rows that a
  kernel can return is the order of some ranking.
\<close>

definition sort_values_desc ::
  "(('k \<times> rat) list \<Rightarrow> 'k \<times> rat \<Rightarrow> nat) \<Rightarrow> ('k \<times> rat) list \<Rightarrow> ('k \<times> rat) list" where
  "sort_values_desc tie tbl = sort_key (\<lambda>row. - snd row) (sort_key (tie tbl) tbl)"

definition customers_by_restaurant ::
  "(rat list \<Rightarrow> rat) \<Rightarrow> ((string \<times> rat) list \<Rightarrow> string \<times> rat \<Rightarrow> nat) \<Rightarrow> enriched list
     \<Rightarrow> (string \<times> rat) list" where
  "customers_by_restaurant ksum tie filtered =
     sort_values_desc tie (groupby_sum ksum Restaurant_Name Customers filtered)"

definition customers_by_country ::
  "(rat list \<Rightarrow> rat) \<Rightarrow> ((string \<times> rat) list \<Rightarrow> string \<times> rat \<Rightarrow> nat) \<Rightarrow> enriched list
     \<Rightarrow> (string \<times> rat) list" where
  "customers_by_country ksum tie filtered =
     sort_values_desc tie (groupby_sum ksum Country Customers filtered)"

subsection \<open>The script from top to bottom\<close>

text \<open>
  One run of the script for the widget state \<open>sel\<close>, with the kernels \<open>sales_sum\<close>
  and \<open>customers_sum\<close> of the two numeric columns. An exception stops the run: the
  result is the exception, or the three tables. The year bounds are the ends of the
  slider: they limit what the widget can return and are not used after it, so only their
  failure shows in the run.
\<close>

definition dashboard ::
  "(string \<Rightarrow> rat option) \<Rightarrow> (string \<Rightarrow> timestamp option) \<Rightarrow> (rat list \<Rightarrow> rat)
     \<Rightarrow> (rat list \<Rightarrow> rat) \<Rightarrow> ((string \<times> rat) list \<Rightarrow> string \<times> rat \<Rightarrow> nat)
     \<Rightarrow> csv_row list \<Rightarrow> location list \<Rightarrow> selection \<Rightarrow> error + tables" where
  "dashboard to_numeric to_datetime sales_sum customers_sum tie csv xlsx sel =
     (case load_data to_numeric to_datetime csv xlsx of
        Inl e \<Rightarrow> Inl e
      | Inr (actuals_df, location_df, merged_df) \<Rightarrow>
          (case year_bounds merged_df of
             Inl e \<Rightarrow> Inl e
           | Inr bounds \<Rightarrow>
               (let filtered = filtered_df merged_df sel in
                case monthly_summary (Month_dtype merged_df) sales_sum filtered of
                  Inl e \<Rightarrow> Inl e
                | Inr ms \<Rightarrow>
                    Inr \<lparr>monthly_summary_table = ms,
                         customers_by_restaurant_table =
                           customers_by_restaurant customers_sum tie filtered,
                         customers_by_country_table =
                           customers_by_country customers_sum tie filtered\<rparr>)))"

subsection \<open>The two sum kernels\<close>

text \<open>An int64 column is added in 64-bit two's complement: the sum wraps around.\<close>

definition int64_sum :: "rat list \<Rightarrow> rat" where
  "int64_sum vs = of_int ((\<lfloor>sum_list vs\<rfloor> + 2 ^ 63) mod 2 ^ 64 - 2 ^ 63)"

text \<open>
  A float64 keeps 53 bits: a result is rounded to the nearest multiple of \<open>2 ^ e\<close>, ties
  to the even multiple, where \<open>e\<close> is the least exponent that leaves the multiple below
  \<open>2 ^ 53\<close>, and at least \<open>emin\<close> (the subnormal numbers). A magnitude beyond the
  largest float64 is outside the model and left as it is.
\<close>

definition round_half_even :: "rat \<Rightarrow> int" where
  "round_half_even x =
     (let f = \<lfloor>x\<rfloor>; d = x - of_int f in
      if d < 1 / 2 then f else if 1 / 2 < d then f + 1 else if even f then f else f + 1)"

definition emin :: int where "emin = - 1074"

definition emax :: int where "emax = 971"

definition binade :: "rat \<Rightarrow> int option" where
  "binade x = find (\<lambda>e. \<bar>x\<bar> < 2 ^ 53 * 2 powi e) [emin..emax]"

definition fl64 :: "rat \<Rightarrow> rat" where
  "fl64 x =
     (case binade x of
        None \<Rightarrow> x
      | Some e \<Rightarrow> of_int (round_half_even (x / 2 powi e)) * 2 powi e)"

text \<open>
  The group sum of a float64 column is a compensated (Kahan) sum: the loop of
  \<^verbatim>\<open>group_sum\<close> in pandas, every operation rounded.
\<close>

fun kahan :: "rat \<Rightarrow> rat \<Rightarrow> rat list \<Rightarrow> rat" where
  "kahan sumx compensation [] = sumx"
| "kahan sumx compensation (v # vs) =
     (let y = fl64 (v - compensation); t = fl64 (sumx + y)
      in kahan t (fl64 (fl64 (t - sumx) - y)) vs)"

definition float64_sum :: "rat list \<Rightarrow> rat" where
  "float64_sum vs = kahan 0 0 vs"

subsection \<open>The specification's words\<close>

text \<open>
  The specification adds up the totals of a table and the values of a column without
  saying how. \<open>sum_list\<close> is the exact sum, and \<open>total_nulls_as_zero\<close> the
  exact sum of a column with its nulls taken as 0; \<open>accumulate\<close> is the sum that a
  test in float64 computes, adding the values one after the other.
\<close>

definition total_nulls_as_zero :: "('r \<Rightarrow> rat option) \<Rightarrow> 'r list \<Rightarrow> rat" where
  "total_nulls_as_zero col rows =
     sum_list (map (\<lambda>r. case col r of None \<Rightarrow> 0 | Some v \<Rightarrow> v) rows)"

definition accumulate :: "rat list \<Rightarrow> rat" where
  "accumulate vs = foldl (\<lambda>s v. fl64 (s + v)) 0 vs"

text \<open>
  A sum is exact on small whole numbers when it returns the exact sum of every list of
  whole numbers whose absolute values add up to at most \<open>2 ^ 53\<close>. Both kernels and
  \<open>accumulate\<close> are (\<open>int64_sum_exact\<close>, \<open>float64_sum_exact\<close>,
  \<open>accumulate_exact\<close>).
\<close>

definition exact_on_small_integers :: "(rat list \<Rightarrow> rat) \<Rightarrow> bool" where
  "exact_on_small_integers ksum \<longleftrightarrow>
     (\<forall>vs. (\<forall>v\<in>set vs. v \<in> \<int>) \<and> sum_list (map abs vs) \<le> 2 ^ 53 \<longrightarrow> ksum vs = sum_list vs)"

definition small_integers :: "rat list \<Rightarrow> bool" where
  "small_integers vs \<longleftrightarrow> list_all (\<lambda>v. v \<in> \<int>) vs \<and> sum_list (map abs vs) \<le> 2 ^ 53"

text \<open>
  The specification breaks ties of the customer tables by "input encounter order". The
  distinct non-null keys of a frame in the order of their first row:
\<close>

definition first_seen :: "('r \<Rightarrow> 'k option) \<Rightarrow> 'r list \<Rightarrow> 'k list" where
  "first_seen key rows = rev (remdups (rev (List.map_filter key rows)))"

definition position :: "'k list \<Rightarrow> 'k \<Rightarrow> nat" where
  "position ks k = length (takeWhile (\<lambda>x. x \<noteq> k) ks)"

text \<open>
  A table has its ties in encounter order when, of two rows with the same total, the one
  that comes first is the one whose key is met first.
\<close>

fun ties_in_encounter_order :: "'k list \<Rightarrow> ('k \<times> rat) list \<Rightarrow> bool" where
  "ties_in_encounter_order seen [] = True"
| "ties_in_encounter_order seen (a # tbl) =
     (list_all (\<lambda>b. snd a = snd b \<longrightarrow> position seen (fst a) < position seen (fst b)) tbl
      \<and> ties_in_encounter_order seen tbl)"

text \<open>Two rankings of tied rows: the order of the table, and its reverse.\<close>

definition tie_table_order :: "('k \<times> rat) list \<Rightarrow> 'k \<times> rat \<Rightarrow> nat" where
  "tie_table_order tbl row = 0"

definition tie_reversed :: "('k \<times> rat) list \<Rightarrow> 'k \<times> rat \<Rightarrow> nat" where
  "tie_reversed tbl row = length tbl - position (map fst tbl) (fst row)"

subsection \<open>A sample input\<close>

text \<open>
  The two restaurants and the two transactions of the specification's scenario, and
  transactions with a sales cell \<^verbatim>\<open>N/A\<close>, with a date that does not parse and with
  a key that no location has. The two parsers are given on the cells that occur.
\<close>

definition sample_to_numeric :: "string \<Rightarrow> rat option" where
  "sample_to_numeric s =
     (if s = ''100'' then Some 100 else if s = ''200'' then Some 200
      else if s = ''10'' then Some 10 else if s = ''5'' then Some 5 else None)"

definition sample_to_datetime :: "string \<Rightarrow> timestamp option" where
  "sample_to_datetime s =
     (if s = ''15/01/2023'' then Some \<lparr>ts_year = 2023, ts_month = 1, ts_day = 15\<rparr>
      else if s = ''20/02/2023'' then Some \<lparr>ts_year = 2023, ts_month = 2, ts_day = 20\<rparr>
      else None)"

definition csv_bistro :: csv_row where
  "csv_bistro = \<lparr>csv_Rest_Key = Some (TextKey ''R1''), csv_Date = ''15/01/2023'',
                  csv_Sales = ''100'', csv_Customers = ''10''\<rparr>"

definition csv_tapas :: csv_row where
  "csv_tapas = \<lparr>csv_Rest_Key = Some (TextKey ''R2''), csv_Date = ''20/02/2023'',
                 csv_Sales = ''200'', csv_Customers = ''5''\<rparr>"


definition csv_no_date :: csv_row where
  "csv_no_date = \<lparr>csv_Rest_Key = Some (TextKey ''R1''), csv_Date = ''soon'',
                   csv_Sales = ''100'', csv_Customers = ''10''\<rparr>"

definition csv_unmatched :: csv_row where
  "csv_unmatched = \<lparr>csv_Rest_Key = Some (TextKey ''R9''), csv_Date = ''15/01/2023'',
                     csv_Sales = ''100'', csv_Customers = ''10''\<rparr>"

definition sample_xlsx :: "location list" where
  "sample_xlsx =
     [\<lparr>loc_Rest_Key = Some (TextKey ''R1''), loc_Country = Some ''France'',
       loc_City = Some ''Paris'', loc_Restaurant_Name = Some ''Bistro A''\<rparr>,
      \<lparr>loc_Rest_Key = Some (TextKey ''R2''), loc_Country = Some ''Spain'',
       loc_City = Some ''Madrid'', loc_Restaurant_Name = Some ''Tapas B''\<rparr>]"

definition row_bistro :: enriched where
  "row_bistro =
     \<lparr>Rest_Key = Some (TextKey ''R1''),
      Date = Some \<lparr>ts_year = 2023, ts_month = 1, ts_day = 15\<rparr>,
      Sales = Some 100, Customers = Some 10, Year = Some 2023, Month = Some 1,
      Country = Some ''France'', City = Some ''Paris'', Restaurant_Name = Some ''Bistro A''\<rparr>"

definition row_tapas :: enriched where
  "row_tapas =
     \<lparr>Rest_Key = Some (TextKey ''R2''),
      Date = Some \<lparr>ts_year = 2023, ts_month = 2, ts_day = 20\<rparr>,
      Sales = Some 200, Customers = Some 5, Year = Some 2023, Month = Some 2,
      Country = Some ''Spain'', City = Some ''Madrid'', Restaurant_Name = Some ''Tapas B''\<rparr>"

text \<open>A second transaction of Bistro A, with as many customers as \<open>row_tapas\<close>.\<close>

definition row_bistro_5 :: enriched where
  "row_bistro_5 =
     \<lparr>Rest_Key = Some (TextKey ''R1''),
      Date = Some \<lparr>ts_year = 2023, ts_month = 2, ts_day = 20\<rparr>,
      Sales = Some 100, Customers = Some 5, Year = Some 2023, Month = Some 2,
      Country = Some ''France'', City = Some ''Paris'', Restaurant_Name = Some ''Bistro A''\<rparr>"


text \<open>The row of \<open>csv_no_date\<close> after the merge.\<close>

definition row_no_date :: enriched where
  "row_no_date =
     \<lparr>Rest_Key = Some (TextKey ''R1''), Date = None, Sales = Some 100, Customers = Some 10,
      Year = None, Month = None,
      Country = Some ''France'', City = Some ''Paris'', Restaurant_Name = Some ''Bistro A''\<rparr>"

text \<open>The row of \<open>csv_unmatched\<close> after the merge.\<close>

definition row_unmatched :: enriched where
  "row_unmatched =
     \<lparr>Rest_Key = Some (TextKey ''R9''),
      Date = Some \<lparr>ts_year = 2023, ts_month = 1, ts_day = 15\<rparr>,
      Sales = Some 100, Customers = Some 10, Year = Some 2023, Month = Some 1,
      Country = None, City = None, Restaurant_Name = None\<rparr>"

text \<open>
  A transaction of a restaurant whose row of the location sheet has a country and a city
  and an empty name cell.
\<close>

definition row_unnamed :: enriched where
  "row_unnamed =
     \<lparr>Rest_Key = Some (TextKey ''R3''),
      Date = Some \<lparr>ts_year = 2023, ts_month = 1, ts_day = 15\<rparr>,
      Sales = Some 100, Customers = Some 10, Year = Some 2023, Month = Some 1,
      Country = Some ''France'', City = Some ''Paris'', Restaurant_Name = None\<rparr>"

definition sel_france :: selection where
  "sel_france =
     \<lparr>selected_year_range = (2023, 2023), selected_countries = [''France''],
      selected_cities = [], selected_restaurants = []\<rparr>"

text \<open>The widgets' defaults on the sample: every country, every city, no restaurant.\<close>

definition sel_all :: selection where
  "sel_all =
     \<lparr>selected_year_range = (2023, 2023), selected_countries = [''France'', ''Spain''],
      selected_cities = [''Madrid'', ''Paris''], selected_restaurants = []\<rparr>"

text \<open>
  A frame with amounts in cents: the float64 numbers nearest to 0.1, 0.2 and 0.3, as
  \<^verbatim>\<open>to_numeric\<close> returns them for the cells \<^verbatim>\<open>0.1\<close>, \<^verbatim>\<open>0.2\<close> and
  \<^verbatim>\<open>0.3\<close>. Tapas B in Spain has 0.3 in February; Bistro A and Cafe C in France have
  0.2 and 0.1 in January.
\<close>

definition d01 :: rat where "d01 = 3602879701896397 / 2 ^ 55"

definition d02 :: rat where "d02 = 3602879701896397 / 2 ^ 54"

definition d03 :: rat where "d03 = 5404319552844595 / 2 ^ 54"

text \<open>
  The float64 numbers 0.30000000000000004 (the next after 0.3), 0.6 and
  0.6000000000000001 (the next after 0.6).
\<close>

definition d03_next :: rat where "d03_next = 5404319552844596 / 2 ^ 54"

definition d06 :: rat where "d06 = 5404319552844595 / 2 ^ 53"

definition d06_next :: rat where "d06_next = 5404319552844596 / 2 ^ 53"

definition row_03 :: enriched where
  "row_03 =
     \<lparr>Rest_Key = Some (TextKey ''R2''),
      Date = Some \<lparr>ts_year = 2023, ts_month = 2, ts_day = 20\<rparr>,
      Sales = Some d03, Customers = Some d03, Year = Some 2023, Month = Some 2,
      Country = Some ''Spain'', City = Some ''Madrid'', Restaurant_Name = Some ''Tapas B''\<rparr>"

definition row_02 :: enriched where
  "row_02 =
     \<lparr>Rest_Key = Some (TextKey ''R1''),
      Date = Some \<lparr>ts_year = 2023, ts_month = 1, ts_day = 15\<rparr>,
      Sales = Some d02, Customers = Some d02, Year = Some 2023, Month = Some 1,
      Country = Some ''France'', City = Some ''Paris'', Restaurant_Name = Some ''Bistro A''\<rparr>"

definition row_01 :: enriched where
  "row_01 =
     \<lparr>Rest_Key = Some (TextKey ''R3''),
      Date = Some \<lparr>ts_year = 2023, ts_month = 1, ts_day = 15\<rparr>,
      Sales = Some d01, Customers = Some d01, Year = Some 2023, Month = Some 1,
      Country = Some ''France'', City = Some ''Lyon'', Restaurant_Name = Some ''Cafe C''\<rparr>"

definition cents :: "enriched list" where
  "cents = [row_03, row_02, row_01]"

definition sel_2023 :: selection where
  "sel_2023 =
     \<lparr>selected_year_range = (2023, 2023), selected_countries = [],
      selected_cities = [], selected_restaurants = []\<rparr>"

section \<open>The sum kernels\<close>

lemma floor_rat_numeral: "\<lfloor>(numeral a :: rat) / numeral b\<rfloor> = numeral a div numeral b"
  by (metis floor_divide_of_int_eq of_int_numeral)

lemma round_half_even_of_int: "round_half_even (of_int k) = k"
  by (simp add: round_half_even_def)

lemma find_upto:
  assumes "l \<le> e" "e \<le> u" "P e" "\<forall>k. l \<le> k \<and> k < e \<longrightarrow> \<not> P k"
  shows "find P [l..u] = Some e"
proof -
  let ?i = "nat (e - l)"
  have i: "?i < length [l..u]" using assms(1,2) by simp
  have nth: "[l..u] ! ?i = e" using assms(1,2) by simp
  have before: "\<not> P ([l..u] ! j)" if "j < ?i" for j
  proof -
    from that assms(1,2) have "[l..u] ! j = l + int j" by simp
    moreover from that have "l + int j < e" by linarith
    ultimately show ?thesis using assms(4) by simp
  qed
  show ?thesis
    unfolding find_Some_iff using i nth assms(3) before by (intro exI[of _ ?i]) auto
qed

lemma find_upto_Some:
  assumes "find P [l..u] = Some e"
  shows "l \<le> e" "e \<le> u" "P e" "\<forall>k. l \<le> k \<and> k < e \<longrightarrow> \<not> P k"
proof -
  from assms obtain i where i: "i < length [l..u]" and p: "P ([l..u] ! i)"
    and e: "e = [l..u] ! i" and before: "\<forall>j<i. \<not> P ([l..u] ! j)"
    unfolding find_Some_iff by blast
  from i have nth: "[l..u] ! i = l + int i" by simp
  from i e nth show "l \<le> e" "e \<le> u" by simp_all
  from p e show "P e" by simp
  show "\<forall>k. l \<le> k \<and> k < e \<longrightarrow> \<not> P k"
  proof (intro allI impI)
    fix k assume k: "l \<le> k \<and> k < e"
    let ?j = "nat (k - l)"
    from k e nth have j: "?j < i" by linarith
    with i k have "[l..u] ! ?j = k" by simp
    with before j show "\<not> P k" by metis
  qed
qed

lemma binade_at:
  assumes "emin \<le> e" "e \<le> emax" "\<bar>x\<bar> < 2 ^ 53 * 2 powi e"
    and "e = emin \<or> 2 ^ 53 * 2 powi (e - 1) \<le> \<bar>x\<bar>"
  shows "binade x = Some e"
  unfolding binade_def
proof (rule find_upto)
  show "emin \<le> e" "e \<le> emax" "\<bar>x\<bar> < 2 ^ 53 * 2 powi e" by fact+
  show "\<forall>k. emin \<le> k \<and> k < e \<longrightarrow> \<not> \<bar>x\<bar> < 2 ^ 53 * 2 powi k"
  proof (intro allI impI)
    fix k assume k: "emin \<le> k \<and> k < e"
    with assms(4) have low: "2 ^ 53 * 2 powi (e - 1) \<le> \<bar>x\<bar>" by auto
    have "(2::rat) powi k \<le> 2 powi (e - 1)"
      using k by (intro power_int_increasing) auto
    then have "2 ^ 53 * (2::rat) powi k \<le> 2 ^ 53 * 2 powi (e - 1)"
      by simp
    with low show "\<not> \<bar>x\<bar> < 2 ^ 53 * 2 powi k" by linarith
  qed
qed

text \<open>How \<open>fl64\<close> rounds a number whose exponent is known.\<close>

lemma fl64_at:
  assumes "emin \<le> e" "e \<le> emax" "\<bar>x\<bar> < 2 ^ 53 * 2 powi e"
    and "e = emin \<or> 2 ^ 53 * 2 powi (e - 1) \<le> \<bar>x\<bar>"
  shows "fl64 x = of_int (round_half_even (x / 2 powi e)) * 2 powi e"
  by (simp add: fl64_def binade_at [OF assms])

text \<open>A whole number of at most 53 bits is a float64: rounding leaves it as it is.\<close>

lemma fl64_of_int:
  assumes "\<bar>n\<bar> \<le> 2 ^ 53"
  shows "fl64 (of_int n) = of_int n"
proof (cases "binade (of_int n)")
  case None
  then show ?thesis by (simp add: fl64_def)
next
  case (Some e)
  let ?P = "\<lambda>e. \<bar>rat_of_int n\<bar> < 2 ^ 53 * 2 powi e"
  from Some have f: "find ?P [emin..emax] = Some e" by (simp add: binade_def)
  note e = find_upto_Some [OF f]
  have "\<exists>k. rat_of_int n / 2 powi e = of_int k"
  proof (cases "e \<le> 0")
    case True
    then have "rat_of_int n / 2 powi e = of_int (n * 2 ^ nat (- e))"
      by (simp add: power_int_def field_simps)
    then show ?thesis by blast
  next
    case False
    then have "emin \<le> e - 1 \<and> e - 1 < e" by (simp add: emin_def)
    with e(4) have "\<not> ?P (e - 1)" by blast
    then have low: "2 ^ 53 * 2 powi (e - 1) \<le> \<bar>rat_of_int n\<bar>" by simp
    have "(1::rat) \<le> 2 powi (e - 1)"
      using False by (intro one_le_power_int) auto
    then have "(2::rat) ^ 53 \<le> 2 ^ 53 * 2 powi (e - 1)" by simp
    with low have ge: "(2::rat) ^ 53 \<le> \<bar>rat_of_int n\<bar>" by linarith
    have "\<bar>rat_of_int n\<bar> = rat_of_int \<bar>n\<bar>" by simp
    with ge have "(2::int) ^ 53 \<le> \<bar>n\<bar>"
      by (metis of_int_le_iff of_int_numeral of_int_power)
    with assms have n: "\<bar>n\<bar> = 2 ^ 53" by simp
    have "e = 1"
    proof (rule ccontr)
      assume "e \<noteq> 1"
      with False have "1 \<le> e - 1" by simp
      then have "(2::rat) powi 1 \<le> 2 powi (e - 1)"
        by (intro power_int_increasing) auto
      then have "(2::rat) ^ 53 * 2 \<le> 2 ^ 53 * 2 powi (e - 1)" by simp
      with low have "(2::rat) ^ 54 \<le> \<bar>rat_of_int n\<bar>" by simp
      with n show False by simp
    qed
    from n have "n = 2 ^ 53 \<or> n = - (2 ^ 53)" by linarith
    then have "rat_of_int n / 2 powi 1 = of_int (n div 2)"
      by auto
    with \<open>e = 1\<close> show ?thesis by blast
  qed
  then obtain k where k: "rat_of_int n / 2 powi e = of_int k" ..
  then have "of_int k * 2 powi e = rat_of_int n"
    by (simp add: field_simps)
  with Some k show ?thesis
    by (simp add: fl64_def round_half_even_of_int)
qed

lemma fl64_Ints: "v \<in> \<int> \<Longrightarrow> \<bar>v\<bar> \<le> 2 ^ 53 \<Longrightarrow> fl64 v = v"
proof -
  assume "v \<in> \<int>" and b: "\<bar>v\<bar> \<le> 2 ^ 53"
  then obtain n where v: "v = of_int n" by (auto elim: Ints_cases)
  with b have "rat_of_int \<bar>n\<bar> \<le> 2 ^ 53" by simp
  then have "\<bar>n\<bar> \<le> 2 ^ 53"
    by (metis of_int_le_iff of_int_numeral of_int_power)
  with v show ?thesis by (simp add: fl64_of_int)
qed

lemma kahan_exact:
  "sumx \<in> \<int> \<Longrightarrow> \<forall>v\<in>set vs. v \<in> \<int> \<Longrightarrow> \<bar>sumx\<bar> + sum_list (map abs vs) \<le> 2 ^ 53
     \<Longrightarrow> kahan sumx 0 vs = sumx + sum_list vs"
proof (induction vs arbitrary: sumx)
  case Nil
  then show ?case by simp
next
  case (Cons v vs)
  have nonneg: "0 \<le> sum_list (map abs vs)"
    by (rule sum_list_nonneg) auto
  from Cons.prems have v: "v \<in> \<int>" "\<bar>v\<bar> \<le> 2 ^ 53"
    using nonneg by auto
  from Cons.prems nonneg have t: "sumx + v \<in> \<int>" "\<bar>sumx + v\<bar> \<le> 2 ^ 53"
    by auto
  have y: "fl64 (v - 0) = v" using v by (simp add: fl64_Ints)
  have s: "fl64 (sumx + v) = sumx + v" using t by (rule fl64_Ints)
  have c: "fl64 (fl64 (sumx + v - sumx) - v) = 0"
    using v fl64_of_int [of 0] by (simp add: fl64_Ints)
  have "kahan (sumx + v) 0 vs = sumx + v + sum_list vs"
  proof (rule Cons.IH)
    show "sumx + v \<in> \<int>" by fact
    show "\<forall>v\<in>set vs. v \<in> \<int>" using Cons.prems by simp
    show "\<bar>sumx + v\<bar> + sum_list (map abs vs) \<le> 2 ^ 53"
      using Cons.prems by simp
  qed
  then show ?case
    using y s c by (simp add: Let_def)
qed

lemma float64_sum_exact: "exact_on_small_integers float64_sum"
  unfolding exact_on_small_integers_def float64_sum_def
  using kahan_exact [of 0] by simp

lemma accumulate_from:
  "s \<in> \<int> \<Longrightarrow> \<forall>v\<in>set vs. v \<in> \<int> \<Longrightarrow> \<bar>s\<bar> + sum_list (map abs vs) \<le> 2 ^ 53
     \<Longrightarrow> foldl (\<lambda>s v. fl64 (s + v)) s vs = s + sum_list vs"
proof (induction vs arbitrary: s)
  case Nil
  then show ?case by simp
next
  case (Cons v vs)
  have nonneg: "0 \<le> sum_list (map abs vs)"
    by (rule sum_list_nonneg) auto
  from Cons.prems nonneg have t: "s + v \<in> \<int>" "\<bar>s + v\<bar> \<le> 2 ^ 53"
    by auto
  have "foldl (\<lambda>s v. fl64 (s + v)) (s + v) vs = s + v + sum_list vs"
  proof (rule Cons.IH)
    show "s + v \<in> \<int>" by fact
    show "\<forall>v\<in>set vs. v \<in> \<int>" using Cons.prems by simp
    show "\<bar>s + v\<bar> + sum_list (map abs vs) \<le> 2 ^ 53"
      using Cons.prems by simp
  qed
  then show ?case
    using t by (simp add: fl64_Ints)
qed

lemma accumulate_exact: "exact_on_small_integers accumulate"
  unfolding exact_on_small_integers_def accumulate_def
  using accumulate_from [of 0] by simp

lemma abs_sum_list_le: "\<bar>sum_list vs\<bar> \<le> sum_list (map abs (vs :: rat list))"
  by (induction vs) auto

lemma sum_list_Ints: "\<forall>v\<in>set vs. v \<in> \<int> \<Longrightarrow> sum_list (vs :: rat list) \<in> \<int>"
  by (induction vs) auto

lemma int64_sum_exact: "exact_on_small_integers int64_sum"
  unfolding exact_on_small_integers_def
proof (intro allI impI)
  fix vs :: "rat list"
  assume a: "(\<forall>v\<in>set vs. v \<in> \<int>) \<and> sum_list (map abs vs) \<le> 2 ^ 53"
  then obtain n where n: "sum_list vs = of_int n"
    using sum_list_Ints [of vs] by (auto elim: Ints_cases)
  from a abs_sum_list_le [of vs] have "\<bar>rat_of_int n\<bar> \<le> 2 ^ 53"
    unfolding n by linarith
  then have "rat_of_int \<bar>n\<bar> \<le> 2 ^ 53" by simp
  then have "\<bar>n\<bar> \<le> 2 ^ 53"
    by (metis of_int_le_iff of_int_numeral of_int_power)
  then have "(n + 2 ^ 63) mod 2 ^ 64 = n + 2 ^ 63"
    by (intro mod_pos_pos_trivial) simp_all
  then show "int64_sum vs = sum_list vs"
    by (simp add: int64_sum_def n)
qed

text \<open>The sums of the kernels on the sample, which has whole amounts.\<close>

lemma float64_sum_small: "small_integers vs \<Longrightarrow> float64_sum vs = sum_list vs"
  using float64_sum_exact
  by (simp add: exact_on_small_integers_def small_integers_def list_all_iff)

lemma float64_sum_Nil: "float64_sum [] = 0"
  by (simp add: float64_sum_def)

text \<open>An int64 sum wraps at \<open>2 ^ 63\<close> and a float64 sum drops the bit below its 53.\<close>

lemma int64_sum_wraps: "int64_sum [2 ^ 63 - 1, 1] = - (2 ^ 63)"
  by (simp add: int64_sum_def)

text \<open>The roundings that the frame \<open>cents\<close> needs.\<close>

lemma fl64_0: "fl64 0 = 0"
  using fl64_of_int [of 0] by simp

lemma fl64_d01: "fl64 d01 = d01"
  by (subst fl64_at [of "- 56"])
     (simp_all add: d01_def round_half_even_def Let_def power_int_minus emin_def emax_def
       floor_rat_numeral)

lemma fl64_d02: "fl64 d02 = d02"
  by (subst fl64_at [of "- 55"])
     (simp_all add: d02_def round_half_even_def Let_def power_int_minus emin_def emax_def
       floor_rat_numeral)

lemma fl64_d03: "fl64 d03 = d03"
  by (subst fl64_at [of "- 54"])
     (simp_all add: d03_def round_half_even_def Let_def power_int_minus emin_def emax_def
       floor_rat_numeral)

lemma fl64_d03_next: "fl64 d03_next = d03_next"
  by (subst fl64_at [of "- 54"])
     (simp_all add: d03_next_def round_half_even_def Let_def power_int_minus emin_def
       emax_def floor_rat_numeral)

text \<open>0.2 + 0.1 is rounded up, to 0.30000000000000004.\<close>

lemma fl64_d02_d01: "fl64 (d02 + d01) = d03_next"
  by (subst fl64_at [of "- 54"])
     (simp_all add: d01_def d02_def d03_next_def round_half_even_def Let_def power_int_minus
       emin_def emax_def floor_rat_numeral)

text \<open>0.30000000000000004 + 0.3 is rounded up, to 0.6000000000000001.\<close>

lemma fl64_d03_next_d03: "fl64 (d03_next + d03) = d06_next"
  by (subst fl64_at [of "- 53"])
     (simp_all add: d03_def d03_next_def d06_next_def round_half_even_def Let_def
       power_int_minus emin_def emax_def floor_rat_numeral)

text \<open>0.3 + 0.2 is 0.5, and 0.5 + 0.1 is rounded down, to 0.6.\<close>

lemma fl64_d03_d02: "fl64 (d03 + d02) = 1 / 2"
  by (subst fl64_at [of "- 53"])
     (simp_all add: d02_def d03_def round_half_even_def Let_def power_int_minus emin_def
       emax_def floor_rat_numeral)

lemma fl64_half_d01: "fl64 (1 / 2 + d01) = d06"
  by (subst fl64_at [of "- 53"])
     (simp_all add: d01_def d06_def round_half_even_def Let_def power_int_minus emin_def
       emax_def floor_rat_numeral)

lemma float64_sum_single: "fl64 v = v \<Longrightarrow> float64_sum [v] = v"
  by (simp add: float64_sum_def Let_def fl64_0)

lemma float64_sum_d02_d01: "float64_sum [d02, d01] = d03_next"
  by (simp add: float64_sum_def Let_def fl64_0 fl64_d02 fl64_d01 fl64_d02_d01)

lemma accumulate_cents_totals: "accumulate [d03_next, d03] = d06_next"
  by (simp add: accumulate_def fl64_d03_next fl64_d03_next_d03)

lemma accumulate_cents_rows: "accumulate [d03, d02, d01] = d06"
  by (simp add: accumulate_def fl64_d03 fl64_d03_d02 fl64_half_d01)

lemma cents_values_differ:
  "d03_next + d03 \<noteq> d03 + d02 + d01" "d06_next \<noteq> d06" "d03 < d03_next" "d01 < d02" "d02 < d03"
  by (simp_all add: d01_def d02_def d03_def d03_next_def d06_def d06_next_def)

section \<open>Loading and merging\<close>

lemma coerce_row_key: "Rest_Key (coerce_row to_numeric to_datetime c) = csv_Rest_Key c"
  by (simp add: coerce_row_def Let_def)

text \<open>Loading fails only in the merge, and only by the dtypes of the two key columns.\<close>

lemma load_data_eq:
  "load_data to_numeric to_datetime csv xlsx =
     (if keys_clash (map csv_Rest_Key csv) (map loc_Rest_Key xlsx) then Inl ValueError
      else Inr (map (coerce_row to_numeric to_datetime) csv, xlsx,
                join_rows (map (coerce_row to_numeric to_datetime) csv) xlsx))"
  by (simp add: load_data_def merge_left_def Let_def comp_def coerce_row_key)

lemma load_data_merged:
  "load_data to_numeric to_datetime csv xlsx = Inr (actuals_df, location_df, merged_df) \<Longrightarrow>
     merged_df = join_rows (map (coerce_row to_numeric to_datetime) csv) xlsx"
  by (auto simp: load_data_eq split: if_splits)

lemma load_data_error: "load_data to_numeric to_datetime csv xlsx = Inl e \<Longrightarrow> e = ValueError"
  by (simp add: load_data_eq split: if_splits)

lemma left_rows_nonempty: "left_rows a xlsx \<noteq> []"
  by (simp add: left_rows_def Let_def)

lemma left_rows_attach: "r \<in> set (left_rows a xlsx) \<Longrightarrow> \<exists>co ci rn. r = attach a co ci rn"
  by (auto simp: left_rows_def Let_def split: if_splits)

lemma left_rows_Year: "r \<in> set (left_rows a xlsx) \<Longrightarrow> Year r = Year a"
  by (auto simp: left_rows_def Let_def attach_def split: if_splits)

lemma left_rows_Date: "r \<in> set (left_rows a xlsx) \<Longrightarrow> Date r = Date a"
  by (auto simp: left_rows_def Let_def attach_def split: if_splits)

lemma left_rows_unmatched:
  "\<not> (\<exists>l\<in>set xlsx. loc_Rest_Key l = Rest_Key a) \<Longrightarrow> left_rows a xlsx = [attach a None None None]"
  by (simp add: left_rows_def filter_empty_conv)

lemma set_join_rows: "set (join_rows actuals_df xlsx) = (\<Union>a\<in>set actuals_df. set (left_rows a xlsx))"
  by (simp add: join_rows_def)

text \<open>Every row of the merged frame is a transaction with some location columns.\<close>

lemma merged_row_origin:
  "r \<in> set (join_rows (map (coerce_row to_numeric to_datetime) csv) xlsx) \<Longrightarrow>
     \<exists>c\<in>set csv. \<exists>co ci rn. r = attach (coerce_row to_numeric to_datetime c) co ci rn"
  using left_rows_attach by (fastforce simp: set_join_rows)

text \<open>Year and Month come from the same Date: one is null exactly when the other is.\<close>

lemma merged_month_of_year:
  assumes "r \<in> set (join_rows (map (coerce_row to_numeric to_datetime) csv) xlsx)"
    and "Year r \<noteq> None"
  shows "Month r \<noteq> None"
proof -
  from merged_row_origin [OF assms(1)] obtain c co ci rn
    where r: "r = attach (coerce_row to_numeric to_datetime c) co ci rn" by blast
  with assms(2) show ?thesis
    by (cases "to_datetime (csv_Date c)") (simp_all add: attach_def coerce_row_def)
qed

lemma merged_years_null_iff:
  "(\<forall>r\<in>set (join_rows (map (coerce_row to_numeric to_datetime) csv) xlsx). Year r = None)
     \<longleftrightarrow> (\<forall>c\<in>set csv. to_datetime (csv_Date c) = None)"
proof
  assume null:
    "\<forall>r\<in>set (join_rows (map (coerce_row to_numeric to_datetime) csv) xlsx). Year r = None"
  show "\<forall>c\<in>set csv. to_datetime (csv_Date c) = None"
  proof
    fix c assume c: "c \<in> set csv"
    let ?a = "coerce_row to_numeric to_datetime c"
    obtain r where r: "r \<in> set (left_rows ?a xlsx)"
      using left_rows_nonempty [of ?a xlsx] by (cases "left_rows ?a xlsx") auto
    with c have "r \<in> set (join_rows (map (coerce_row to_numeric to_datetime) csv) xlsx)"
      by (auto simp: set_join_rows)
    with null have "Year r = None" by blast
    with r have "Year ?a = None" by (simp add: left_rows_Year)
    then show "to_datetime (csv_Date c) = None"
      by (simp add: coerce_row_def Let_def)
  qed
next
  assume all: "\<forall>c\<in>set csv. to_datetime (csv_Date c) = None"
  show "\<forall>r\<in>set (join_rows (map (coerce_row to_numeric to_datetime) csv) xlsx). Year r = None"
  proof
    fix r assume "r \<in> set (join_rows (map (coerce_row to_numeric to_datetime) csv) xlsx)"
    then obtain c co ci rn where "c \<in> set csv"
      and "r = attach (coerce_row to_numeric to_datetime c) co ci rn"
      using merged_row_origin by blast
    with all show "Year r = None"
      by (simp add: attach_def coerce_row_def Let_def)
  qed
qed

lemma merged_dates_null_iff:
  "(\<exists>r\<in>set (join_rows (map (coerce_row to_numeric to_datetime) csv) xlsx). Date r = None)
     \<longleftrightarrow> (\<exists>c\<in>set csv. to_datetime (csv_Date c) = None)"
proof
  assume "\<exists>r\<in>set (join_rows (map (coerce_row to_numeric to_datetime) csv) xlsx). Date r = None"
  then obtain r c co ci rn where "Date r = None" "c \<in> set csv"
    "r = attach (coerce_row to_numeric to_datetime c) co ci rn"
    using merged_row_origin by blast
  then show "\<exists>c\<in>set csv. to_datetime (csv_Date c) = None"
    by (auto simp: attach_def coerce_row_def Let_def)
next
  assume "\<exists>c\<in>set csv. to_datetime (csv_Date c) = None"
  then obtain c where c: "c \<in> set csv" "to_datetime (csv_Date c) = None" by blast
  let ?a = "coerce_row to_numeric to_datetime c"
  obtain r where r: "r \<in> set (left_rows ?a xlsx)"
    using left_rows_nonempty [of ?a xlsx] by (cases "left_rows ?a xlsx") auto
  with c have "r \<in> set (join_rows (map (coerce_row to_numeric to_datetime) csv) xlsx)"
    by (auto simp: set_join_rows)
  moreover from r c have "Date r = None"
    by (simp add: left_rows_Date coerce_row_def Let_def)
  ultimately show
    "\<exists>r\<in>set (join_rows (map (coerce_row to_numeric to_datetime) csv) xlsx). Date r = None"
    by blast
qed

lemma Month_dtype_merged:
  "Month_dtype (join_rows (map (coerce_row to_numeric to_datetime) csv) xlsx) =
     (if \<exists>c\<in>set csv. to_datetime (csv_Date c) = None then Float64 else Int32)"
  using merged_dates_null_iff [of to_numeric to_datetime csv xlsx]
  by (simp add: Month_dtype_def list_ex_iff)

lemma sample_no_clash:
  "\<not> keys_clash (map csv_Rest_Key [csv_bistro, csv_tapas]) (map loc_Rest_Key sample_xlsx)"
  "\<not> keys_clash (map csv_Rest_Key [csv_bistro, csv_no_date]) (map loc_Rest_Key sample_xlsx)"
  "\<not> keys_clash (map csv_Rest_Key [csv_no_date]) (map loc_Rest_Key sample_xlsx)"
  by (simp_all add: keys_clash_def numeric_keys_def text_keys_def is_text_def is_number_def
      csv_bistro_def csv_tapas_def csv_no_date_def sample_xlsx_def)

lemma sample_joined:
  "join_rows (map (coerce_row sample_to_numeric sample_to_datetime) [csv_bistro, csv_tapas])
     sample_xlsx = [row_bistro, row_tapas]"
  by (simp add: join_rows_def left_rows_def coerce_row_def attach_def sample_to_numeric_def
      sample_to_datetime_def csv_bistro_def csv_tapas_def sample_xlsx_def row_bistro_def
      row_tapas_def)

lemma sample_joined_no_date:
  "join_rows (map (coerce_row sample_to_numeric sample_to_datetime) [csv_bistro, csv_no_date])
     sample_xlsx = [row_bistro, row_no_date]"
  by (simp add: join_rows_def left_rows_def coerce_row_def attach_def sample_to_numeric_def
      sample_to_datetime_def csv_bistro_def csv_no_date_def sample_xlsx_def row_bistro_def
      row_no_date_def)

lemma sample_load:
  "load_data sample_to_numeric sample_to_datetime [csv_bistro, csv_tapas] sample_xlsx =
     Inr (map (coerce_row sample_to_numeric sample_to_datetime) [csv_bistro, csv_tapas],
          sample_xlsx, [row_bistro, row_tapas])"
  unfolding load_data_eq sample_joined using sample_no_clash(1) by simp

lemma sample_load_no_date:
  "load_data sample_to_numeric sample_to_datetime [csv_bistro, csv_no_date] sample_xlsx =
     Inr (map (coerce_row sample_to_numeric sample_to_datetime) [csv_bistro, csv_no_date],
          sample_xlsx, [row_bistro, row_no_date])"
  unfolding load_data_eq sample_joined_no_date using sample_no_clash(2) by simp

text \<open>A csv whose keys are read as numbers against a sheet of text keys does not load.\<close>

lemma load_data_int_against_text:
  "load_data to_numeric to_datetime
     [\<lparr>csv_Rest_Key = Some (IntKey 1), csv_Date = ''15/01/2023'', csv_Sales = ''100'',
       csv_Customers = ''10''\<rparr>] sample_xlsx = Inl ValueError"
  by (simp add: load_data_eq keys_clash_def numeric_keys_def text_keys_def is_text_def
      is_number_def sample_xlsx_def)

section \<open>The filter\<close>

lemma year_mask_iff:
  "year_mask (lo, hi) r \<longleftrightarrow> (\<exists>y. Year r = Some y \<and> lo \<le> y \<and> y \<le> hi)"
  by (cases "Year r") (simp_all add: year_mask_def)

lemma isin_iff: "isin col vals r \<longleftrightarrow> (\<exists>v. col r = Some v \<and> v \<in> set vals)"
  by (cases "col r") (simp_all add: isin_def)

lemma filtered_df_subset_year:
  "set (filtered_df merged sel) \<subseteq> set (filter (year_mask (selected_year_range sel)) merged)"
  by (auto simp: filtered_df_def Let_def)

lemma filtered_df_subset: "set (filtered_df merged sel) \<subseteq> set merged"
  using filtered_df_subset_year by fastforce

lemma filtered_df_country:
  "selected_countries sel \<noteq> [] \<Longrightarrow> r \<in> set (filtered_df merged sel)
     \<Longrightarrow> isin Country (selected_countries sel) r"
  by (auto simp: filtered_df_def Let_def split: if_splits)

text \<open>The filtered frame is one pass over the merged frame with the conjunction of the masks.\<close>

lemma filtered_df_filter:
  "filtered_df merged sel =
     filter (\<lambda>r. year_mask (selected_year_range sel) r
       \<and> (selected_countries sel = [] \<or> isin Country (selected_countries sel) r)
       \<and> (selected_cities sel = [] \<or> isin City (selected_cities sel) r)
       \<and> (selected_restaurants sel = [] \<or> isin Restaurant_Name (selected_restaurants sel) r))
       merged"
  by (auto simp: filtered_df_def Let_def intro!: filter_cong)

lemma sample_filtered: "filtered_df [row_bistro, row_tapas] sel_france = [row_bistro]"
  by (simp add: filtered_df_def year_mask_def isin_def sel_france_def row_bistro_def
      row_tapas_def)

lemma sample_filtered_no_date: "filtered_df [row_bistro, row_no_date] sel_france = [row_bistro]"
  by (simp add: filtered_df_def year_mask_def isin_def sel_france_def row_bistro_def
      row_no_date_def)

text \<open>
  C3. When the country, city and restaurant selections are all empty, the filter applies
  none of the three membership predicates: the output is the input restricted by the year
  range alone, in the input's order.
\<close>

theorem filtered_df_empty_selections:
  "filtered_df merged
     \<lparr>selected_year_range = rng, selected_countries = [], selected_cities = [],
      selected_restaurants = []\<rparr> = filter (year_mask rng) merged"
  by (simp add: filtered_df_def)

text \<open>
  C6. A row passes the year filter exactly when its Year is present and lies between the
  two ends of the range, both included. The filtered frame is the rows of the merged
  frame, in their order, that pass the year filter and the membership test of every
  selection that is not empty; with the three selections empty it is the rows with a
  Year in the range. A row built from a transaction whose Date did not parse has a null
  Year and is in no filtered frame, whatever the location columns attached to it and
  whatever the selection.
\<close>

theorem year_filter_inclusive_excludes_null:
  "filtered_df merged sel =
      filter (\<lambda>r. (\<exists>y. Year r = Some y \<and> fst (selected_year_range sel) \<le> y
                      \<and> y \<le> snd (selected_year_range sel))
        \<and> (selected_countries sel = []
             \<or> (\<exists>v. Country r = Some v \<and> v \<in> set (selected_countries sel)))
        \<and> (selected_cities sel = []
             \<or> (\<exists>v. City r = Some v \<and> v \<in> set (selected_cities sel)))
        \<and> (selected_restaurants sel = []
             \<or> (\<exists>v. Restaurant_Name r = Some v \<and> v \<in> set (selected_restaurants sel))))
        merged
   \<and> filtered_df merged
        \<lparr>selected_year_range = (lo, hi), selected_countries = [], selected_cities = [],
         selected_restaurants = []\<rparr> =
      filter (\<lambda>r. \<exists>y. Year r = Some y \<and> lo \<le> y \<and> y \<le> hi) merged
   \<and> (to_datetime (csv_Date c) = None \<longrightarrow>
        Year (attach (coerce_row to_numeric to_datetime c) co ci rn) = None
        \<and> attach (coerce_row to_numeric to_datetime c) co ci rn
            \<notin> set (filtered_df merged sel))"
proof (intro conjI impI)
  have ym: "year_mask (selected_year_range sel) r \<longleftrightarrow>
      (\<exists>y. Year r = Some y \<and> fst (selected_year_range sel) \<le> y
         \<and> y \<le> snd (selected_year_range sel))" for r
    using year_mask_iff [of "fst (selected_year_range sel)" "snd (selected_year_range sel)" r]
    by simp
  show "filtered_df merged sel =
      filter (\<lambda>r. (\<exists>y. Year r = Some y \<and> fst (selected_year_range sel) \<le> y
                      \<and> y \<le> snd (selected_year_range sel))
        \<and> (selected_countries sel = []
             \<or> (\<exists>v. Country r = Some v \<and> v \<in> set (selected_countries sel)))
        \<and> (selected_cities sel = []
             \<or> (\<exists>v. City r = Some v \<and> v \<in> set (selected_cities sel)))
        \<and> (selected_restaurants sel = []
             \<or> (\<exists>v. Restaurant_Name r = Some v \<and> v \<in> set (selected_restaurants sel))))
        merged"
    unfolding filtered_df_filter ym isin_iff ..
  show "filtered_df merged
        \<lparr>selected_year_range = (lo, hi), selected_countries = [], selected_cities = [],
         selected_restaurants = []\<rparr> =
      filter (\<lambda>r. \<exists>y. Year r = Some y \<and> lo \<le> y \<and> y \<le> hi) merged"
    by (auto simp: filtered_df_def year_mask_iff intro!: filter_cong)
next
  let ?r = "attach (coerce_row to_numeric to_datetime c) co ci rn"
  assume "to_datetime (csv_Date c) = None"
  then show null: "Year ?r = None"
    by (simp add: attach_def coerce_row_def)
  show "?r \<notin> set (filtered_df merged sel)"
  proof
    assume "?r \<in> set (filtered_df merged sel)"
    then have "year_mask (selected_year_range sel) ?r"
      using filtered_df_subset_year by fastforce
    with null show False by (simp add: year_mask_def)
  qed
qed

theorem year_filter_inclusive_excludes_null_witness:
  "filtered_df [row_bistro, row_tapas, row_no_date] sel_france = [row_bistro]
   \<and> filtered_df [row_bistro, row_tapas, row_no_date]
        \<lparr>selected_year_range = (2023, 2023), selected_countries = [], selected_cities = [],
         selected_restaurants = []\<rparr> = [row_bistro, row_tapas]
   \<and> filtered_df [row_bistro, row_tapas, row_no_date]
        \<lparr>selected_year_range = (2024, 2025), selected_countries = [], selected_cities = [],
         selected_restaurants = []\<rparr> = []
   \<and> sample_to_datetime (csv_Date csv_no_date) = None
   \<and> Year (attach (coerce_row sample_to_numeric sample_to_datetime csv_no_date)
        (Some ''France'') (Some ''Paris'') (Some ''Bistro A'')) = None
   \<and> attach (coerce_row sample_to_numeric sample_to_datetime csv_no_date)
        (Some ''France'') (Some ''Paris'') (Some ''Bistro A'')
        \<notin> set (filtered_df [row_bistro, row_tapas, row_no_date] sel_france)"
proof -
  have nat: "sample_to_datetime (csv_Date csv_no_date) = None"
    by (simp add: sample_to_datetime_def csv_no_date_def)
  note inst = year_filter_inclusive_excludes_null
    [of "[row_bistro, row_tapas, row_no_date]" _ _ _ sample_to_datetime csv_no_date
      sample_to_numeric "Some ''France''" "Some ''Paris''" "Some ''Bistro A''"]
  have a: "filtered_df [row_bistro, row_tapas, row_no_date] sel_france = [row_bistro]"
    using inst [of sel_france 0 0]
    by (simp add: sel_france_def row_bistro_def row_tapas_def row_no_date_def)
  have b: "filtered_df [row_bistro, row_tapas, row_no_date]
        \<lparr>selected_year_range = (2023, 2023), selected_countries = [], selected_cities = [],
         selected_restaurants = []\<rparr> = [row_bistro, row_tapas]"
    using inst [of sel_france 2023 2023]
    by (simp add: row_bistro_def row_tapas_def row_no_date_def)
  have c: "filtered_df [row_bistro, row_tapas, row_no_date]
        \<lparr>selected_year_range = (2024, 2025), selected_countries = [], selected_cities = [],
         selected_restaurants = []\<rparr> = []"
    using inst [of sel_france 2024 2025]
    by (simp add: row_bistro_def row_tapas_def row_no_date_def)
  show ?thesis
    using nat a b c inst [of sel_france 0 0] by blast
qed

text \<open>
  C7. When the country selection is not empty, every row of the filtered frame has a
  Country that is present and is one of the selected countries.
\<close>

theorem filtered_df_country_in_selection:
  "selected_countries sel \<noteq> [] \<Longrightarrow> r \<in> set (filtered_df merged sel) \<Longrightarrow>
     \<exists>c. Country r = Some c \<and> c \<in> set (selected_countries sel)"
  using filtered_df_country [of sel r merged]
  by (cases "Country r") (simp_all add: isin_def)

theorem filtered_df_country_in_selection_witness:
  "selected_countries sel_france \<noteq> []
   \<and> row_bistro \<in> set (filtered_df [row_bistro, row_tapas] sel_france)
   \<and> (\<exists>c. Country row_bistro = Some c \<and> c \<in> set (selected_countries sel_france))"
proof -
  have ne: "selected_countries sel_france \<noteq> []"
    by (simp add: sel_france_def)
  have mem: "row_bistro \<in> set (filtered_df [row_bistro, row_tapas] sel_france)"
    by (simp add: sample_filtered)
  show ?thesis
    using ne mem filtered_df_country_in_selection [OF ne mem] by blast
qed

section \<open>Grouping\<close>

lemma set_map_filter: "set (List.map_filter f xs) = {y. \<exists>x\<in>set xs. f x = Some y}"
  by (induction xs) (auto simp: List.map_filter_simps split: option.splits)

lemma map_filter_null_key:
  "key r = None \<Longrightarrow> List.map_filter key (xs @ r # ys) = List.map_filter key (xs @ ys)"
  by (simp add: List.map_filter_def)

lemma set_group_keys: "set (group_keys key rows) = {k. \<exists>r\<in>set rows. key r = Some k}"
  by (simp add: group_keys_def set_map_filter)

lemma distinct_group_keys: "distinct (group_keys key rows)"
  by (simp add: group_keys_def)

lemma sorted_group_keys: "sorted (group_keys key rows)"
  by (simp add: group_keys_def)

lemma strict_sorted_group_keys: "sorted_wrt (<) (group_keys key rows)"
  using sorted_group_keys distinct_group_keys strict_sorted_iff by blast

lemma groupby_sum_keys: "map fst (groupby_sum ksum key col rows) = group_keys key rows"
  by (simp add: groupby_sum_def comp_def)

lemma groupby_nunique_keys: "map fst (groupby_nunique key col rows) = group_keys key rows"
  by (simp add: groupby_nunique_def comp_def)




text \<open>A row with a null key is in no group, whatever the kernel.\<close>

lemma groupby_sum_null_key:
  assumes "key r = None"
  shows "groupby_sum ksum key col (xs @ r # ys) = groupby_sum ksum key col (xs @ ys)"
proof -
  have "group_keys key (xs @ r # ys) = group_keys key (xs @ ys)"
    using assms by (simp add: group_keys_def map_filter_null_key)
  moreover have "group_rows key k (xs @ r # ys) = group_rows key k (xs @ ys)" for k
    using assms by (simp add: group_rows_def)
  ultimately show ?thesis by (simp add: groupby_sum_def)
qed

subsection \<open>Exact sums\<close>

lemma total_Cons:
  "total_nulls_as_zero col (r # rows) =
     (case col r of None \<Rightarrow> 0 | Some v \<Rightarrow> v) + total_nulls_as_zero col rows"
  by (simp add: total_nulls_as_zero_def)

lemma sum_list_map_filter:
  "sum_list (List.map_filter col rows) = total_nulls_as_zero col rows"
  by (induction rows)
     (simp_all add: total_nulls_as_zero_def List.map_filter_simps split: option.splits)

text \<open>A row is in the group of its key and in no other.\<close>

lemma sum_list_single_key:
  "distinct ks \<Longrightarrow>
     (\<Sum>k\<leftarrow>ks. if x = Some k then (v::rat) else 0) = (if \<exists>k\<in>set ks. x = Some k then v else 0)"
  by (induction ks) auto

lemma total_groups:
  "distinct ks \<Longrightarrow>
     (\<Sum>k\<leftarrow>ks. total_nulls_as_zero col (group_rows key k rows)) =
       total_nulls_as_zero col (filter (\<lambda>r. \<exists>k\<in>set ks. key r = Some k) rows)"
proof (induction rows)
  case Nil
  then show ?case by (simp add: total_nulls_as_zero_def group_rows_def)
next
  case (Cons r rows)
  let ?v = "case col r of None \<Rightarrow> 0 | Some v \<Rightarrow> v"
  have step: "total_nulls_as_zero col (group_rows key k (r # rows)) =
      (if key r = Some k then ?v else 0) + total_nulls_as_zero col (group_rows key k rows)" for k
    by (simp add: group_rows_def total_Cons)
  have "(\<Sum>k\<leftarrow>ks. total_nulls_as_zero col (group_rows key k (r # rows))) =
      (\<Sum>k\<leftarrow>ks. if key r = Some k then ?v else 0)
        + (\<Sum>k\<leftarrow>ks. total_nulls_as_zero col (group_rows key k rows))"
    by (simp add: step sum_list_addf)
  also have "\<dots> = (if \<exists>k\<in>set ks. key r = Some k then ?v else 0)
      + total_nulls_as_zero col (filter (\<lambda>r. \<exists>k\<in>set ks. key r = Some k) rows)"
    using Cons by (simp add: sum_list_single_key)
  also have "\<dots> = total_nulls_as_zero col (filter (\<lambda>r. \<exists>k\<in>set ks. key r = Some k) (r # rows))"
    by (simp add: total_Cons)
  finally show ?case .
qed

lemma keyed_filter:
  "filter (\<lambda>r. \<exists>k\<in>set (group_keys key rows). key r = Some k) rows =
     filter (\<lambda>r. key r \<noteq> None) rows"
  by (rule filter_cong) (auto simp: set_group_keys)

text \<open>The exact sums of the groups add up to the exact sum over the rows that have a key.\<close>

lemma total_group_keys:
  "(\<Sum>k\<leftarrow>group_keys key rows. total_nulls_as_zero col (group_rows key k rows)) =
     total_nulls_as_zero col (filter (\<lambda>r. key r \<noteq> None) rows)"
  by (simp add: total_groups distinct_group_keys keyed_filter)

subsection \<open>Small whole numbers\<close>

lemma abs_total_filter_le:
  "sum_list (map abs (List.map_filter col (filter P rows)))
     \<le> sum_list (map abs (List.map_filter col rows :: rat list))"
  by (induction rows) (auto simp: List.map_filter_simps split: option.splits)

lemma small_integers_filter:
  assumes "small_integers (List.map_filter col rows)"
  shows "small_integers (List.map_filter col (filter P rows))"
proof -
  have "set (List.map_filter col (filter P rows)) \<subseteq> set (List.map_filter col rows)"
    by (auto simp: set_map_filter)
  with assms abs_total_filter_le [of col P rows] show ?thesis
    unfolding small_integers_def list_all_iff by fastforce
qed

lemma exact_on_small: "exact_on_small_integers ksum \<Longrightarrow> small_integers vs \<Longrightarrow> ksum vs = sum_list vs"
  by (simp add: exact_on_small_integers_def small_integers_def list_all_iff)

text \<open>On small whole numbers an exact kernel gives every group its exact sum.\<close>

lemma groupby_sum_exact:
  assumes "exact_on_small_integers ksum" and "small_integers (List.map_filter col rows)"
  shows "groupby_sum ksum key col rows =
     map (\<lambda>k. (k, total_nulls_as_zero col (group_rows key k rows))) (group_keys key rows)"
proof -
  have "nansum ksum col (group_rows key k rows) =
      total_nulls_as_zero col (group_rows key k rows)" for k
    using exact_on_small [OF assms(1) small_integers_filter [OF assms(2)]]
    by (simp add: nansum_def group_rows_def sum_list_map_filter)
  then show ?thesis by (simp add: groupby_sum_def)
qed

lemma groupby_sum_total:
  assumes "exact_on_small_integers ksum" and "small_integers (List.map_filter col rows)"
  shows "sum_list (map snd (groupby_sum ksum key col rows)) =
     total_nulls_as_zero col (filter (\<lambda>r. key r \<noteq> None) rows)"
  by (simp add: groupby_sum_exact [OF assms] comp_def total_group_keys)

text \<open>The totals of the groups are then small whole numbers too.\<close>

lemma groupby_sum_small:
  assumes "exact_on_small_integers ksum" and "small_integers (List.map_filter col rows)"
  shows "small_integers (map snd (groupby_sum ksum key col rows))"
proof -
  let ?ks = "group_keys key rows"
  let ?vals = "\<lambda>k. List.map_filter col (group_rows key k rows)"
  let ?acol = "\<lambda>r. map_option abs (col r)"
  have tot: "map snd (groupby_sum ksum key col rows) = map (\<lambda>k. sum_list (?vals k)) ?ks"
    by (simp add: groupby_sum_exact [OF assms] comp_def sum_list_map_filter)
  have small: "small_integers (?vals k)" for k
    using small_integers_filter [OF assms(2)] by (simp add: group_rows_def)
  have ints: "\<forall>k\<in>set ?ks. sum_list (?vals k) \<in> \<int>"
    using small by (auto simp: small_integers_def list_all_iff intro: sum_list_Ints)
  have absmf: "map abs (List.map_filter col xs) = List.map_filter ?acol xs" for xs :: "'a list"
    by (induction xs) (simp_all add: List.map_filter_simps split: option.splits)
  have "(\<Sum>k\<leftarrow>?ks. \<bar>sum_list (?vals k)\<bar>) \<le> (\<Sum>k\<leftarrow>?ks. sum_list (map abs (?vals k)))"
    by (rule sum_list_mono) (simp add: abs_sum_list_le)
  also have "\<dots> = (\<Sum>k\<leftarrow>?ks. total_nulls_as_zero ?acol (group_rows key k rows))"
    by (simp add: absmf sum_list_map_filter)
  also have "\<dots> = total_nulls_as_zero ?acol (filter (\<lambda>r. key r \<noteq> None) rows)"
    by (rule total_group_keys)
  also have "\<dots> = sum_list (map abs (List.map_filter col (filter (\<lambda>r. key r \<noteq> None) rows)))"
    by (simp add: absmf sum_list_map_filter)
  also have "\<dots> \<le> sum_list (map abs (List.map_filter col rows))"
    by (rule abs_total_filter_le)
  also have "\<dots> \<le> 2 ^ 53"
    using assms(2) by (simp add: small_integers_def)
  finally have "(\<Sum>k\<leftarrow>?ks. \<bar>sum_list (?vals k)\<bar>) \<le> 2 ^ 53" .
  with ints show ?thesis
    unfolding tot small_integers_def list_all_iff by (simp add: comp_def)
qed

section \<open>The monthly summary\<close>

lemma comprehension_length: "comprehension f xs = Inr ys \<Longrightarrow> length ys = length xs"
  by (induction xs arbitrary: ys) (auto split: sum.splits)

lemma comprehension_all_Inr:
  "\<forall>x\<in>set xs. f x = Inr (g x) \<Longrightarrow> comprehension f xs = Inr (map g xs)"
  by (induction xs) auto

lemma comprehension_Inl: "comprehension f xs = Inl e \<Longrightarrow> \<exists>x\<in>set xs. f x = Inl e"
  by (induction xs) (auto split: sum.splits)

lemma month_label_not_ValueError: "month_label dt m \<noteq> Inl ValueError"
  by (cases dt) (simp_all add: month_label_def Let_def)

lemma month_label_Int32:
  "1 \<le> m \<Longrightarrow> m \<le> 12 \<Longrightarrow> month_label Int32 m = Inr (month_names ! nat (m - 1))"
  by (simp add: month_label_def Let_def month_names_def)

lemma length_by_month:
  "length (sales_by_month ksum filtered) = length (group_keys Month filtered)"
  "length (restaurants_by_month filtered) = length (group_keys Month filtered)"
  by (simp_all add: sales_by_month_def restaurants_by_month_def groupby_sum_def
      groupby_nunique_def)

text \<open>The three columns of the table always have the same length.\<close>

lemma monthly_summary_not_ValueError: "monthly_summary dt ksum filtered \<noteq> Inl ValueError"
proof
  assume a: "monthly_summary dt ksum filtered = Inl ValueError"
  show False
  proof (cases "comprehension (month_label dt) (map fst (sales_by_month ksum filtered))")
    case (Inl e)
    with a have "e = ValueError" by (simp add: monthly_summary_def Let_def)
    with Inl comprehension_Inl month_label_not_ValueError show False by fastforce
  next
    case (Inr labels)
    then have "length labels = length (sales_by_month ksum filtered)"
      using comprehension_length by fastforce
    with a Inr show False
      by (simp add: monthly_summary_def Let_def length_by_month)
  qed
qed

text \<open>
  When the table is built, its columns are the labels of the months of
  \<^verbatim>\<open>sales_by_month.index\<close>, \<^verbatim>\<open>sales_by_month.values\<close> and
  \<^verbatim>\<open>restaurants_by_month.values\<close>.
\<close>

lemma monthly_summary_columns:
  assumes "monthly_summary dt ksum filtered = Inr tbl"
  shows "map TotalSales tbl = map snd (sales_by_month ksum filtered)"
    and "map RestaurantCount tbl = map snd (restaurants_by_month filtered)"
    and "comprehension (month_label dt) (map fst (sales_by_month ksum filtered)) =
           Inr (map MonthLabel tbl)"
proof -
  from assms obtain labels where
    l: "comprehension (month_label dt) (map fst (sales_by_month ksum filtered)) = Inr labels"
    by (cases "comprehension (month_label dt) (map fst (sales_by_month ksum filtered))")
       (simp_all add: monthly_summary_def Let_def)
  then have len: "length labels = length (sales_by_month ksum filtered)"
    using comprehension_length by fastforce
  let ?z = "zip labels
    (zip (map snd (sales_by_month ksum filtered)) (map snd (restaurants_by_month filtered)))"
  from assms l len have tbl:
    "tbl = map (\<lambda>(l, s, c). \<lparr>MonthLabel = l, TotalSales = s, RestaurantCount = c\<rparr>) ?z"
    by (simp add: monthly_summary_def Let_def length_by_month)
  have "map TotalSales tbl = map (fst \<circ> snd) ?z"
    unfolding tbl by (simp add: comp_def case_prod_beta)
  also have "\<dots> = map snd (sales_by_month ksum filtered)"
    using len by (simp add: length_by_month flip: map_map)
  finally show "map TotalSales tbl = map snd (sales_by_month ksum filtered)" .
  have "map RestaurantCount tbl = map (snd \<circ> snd) ?z"
    unfolding tbl by (simp add: comp_def case_prod_beta)
  also have "\<dots> = map snd (restaurants_by_month filtered)"
    using len by (simp add: length_by_month flip: map_map)
  finally show "map RestaurantCount tbl = map snd (restaurants_by_month filtered)" .
  have "map MonthLabel tbl = map fst ?z"
    unfolding tbl by (simp add: comp_def case_prod_beta)
  also have "\<dots> = labels"
    using len by (simp add: length_by_month)
  finally show "comprehension (month_label dt) (map fst (sales_by_month ksum filtered)) =
      Inr (map MonthLabel tbl)"
    using l by simp
qed

lemma zip3_map: "zip (map f xs) (zip (map g xs) (map h xs)) = map (\<lambda>x. (f x, g x, h x)) xs"
  by (induction xs) simp_all

text \<open>
  With an integer Month column the table has one row per distinct month of the frame, in
  ascending order of the month number (\<open>group_keys\<close> is sorted and distinct), labelled
  with the name of the month.
\<close>

lemma monthly_summary_Int32:
  assumes "\<forall>r\<in>set filtered. \<forall>m. Month r = Some m \<longrightarrow> 1 \<le> m \<and> m \<le> 12"
  shows "monthly_summary Int32 ksum filtered =
     Inr (map (\<lambda>m. \<lparr>MonthLabel = month_names ! nat (m - 1),
                     TotalSales = ksum (List.map_filter Sales (group_rows Month m filtered)),
                     RestaurantCount = nunique Rest_Key (group_rows Month m filtered)\<rparr>)
           (group_keys Month filtered))"
proof -
  have "\<forall>m\<in>set (group_keys Month filtered).
      month_label Int32 m = Inr (month_names ! nat (m - 1))"
    using assms by (auto simp: set_group_keys month_label_Int32)
  then have "comprehension (month_label Int32) (group_keys Month filtered) =
      Inr (map (\<lambda>m. month_names ! nat (m - 1)) (group_keys Month filtered))"
    by (rule comprehension_all_Inr)
  moreover have "map fst (sales_by_month ksum filtered) = group_keys Month filtered"
    by (simp add: sales_by_month_def groupby_sum_keys)
  moreover have "map snd (sales_by_month ksum filtered) =
      map (\<lambda>m. ksum (List.map_filter Sales (group_rows Month m filtered)))
        (group_keys Month filtered)"
    by (simp add: sales_by_month_def groupby_sum_def nansum_def comp_def)
  moreover have "map snd (restaurants_by_month filtered) =
      map (\<lambda>m. nunique Rest_Key (group_rows Month m filtered)) (group_keys Month filtered)"
    by (simp add: restaurants_by_month_def groupby_nunique_def comp_def)
  ultimately show ?thesis
    by (simp add: monthly_summary_def Let_def length_by_month zip3_map comp_def)
qed

text \<open>With a float64 Month column the first label raises.\<close>

lemma monthly_summary_Float64:
  "monthly_summary Float64 ksum filtered =
     (if group_keys Month filtered = [] then Inr [] else Inl TypeError)"
proof (cases "group_keys Month filtered")
  case Nil
  then show ?thesis
    by (simp add: monthly_summary_def Let_def sales_by_month_def restaurants_by_month_def
        groupby_sum_def groupby_nunique_def)
next
  case (Cons m ms)
  then have "map fst (sales_by_month ksum filtered) = m # ms"
    by (simp add: sales_by_month_def groupby_sum_keys)
  then have "comprehension (month_label Float64) (map fst (sales_by_month ksum filtered)) =
      Inl TypeError"
    by (simp add: month_label_def)
  with Cons show ?thesis
    by (simp add: monthly_summary_def Let_def)
qed

lemma small_100: "small_integers [100]"
  by (simp add: small_integers_def)

lemma sample_monthly:
  "monthly_summary Int32 float64_sum [row_bistro] =
     Inr [\<lparr>MonthLabel = ''Jan'', TotalSales = 100, RestaurantCount = 1\<rparr>]"
proof -
  have months: "\<forall>r\<in>set [row_bistro]. \<forall>m. Month r = Some m \<longrightarrow> 1 \<le> m \<and> m \<le> 12"
    by (simp add: row_bistro_def)
  have keys: "group_keys Month [row_bistro] = [1]"
    by (simp add: group_keys_def List.map_filter_def row_bistro_def)
  have vals: "List.map_filter Sales (group_rows Month 1 [row_bistro]) = [100]"
    by (simp add: group_rows_def List.map_filter_def row_bistro_def)
  have n: "nunique Rest_Key (group_rows Month 1 [row_bistro]) = 1"
    by (simp add: group_rows_def nunique_def List.map_filter_def row_bistro_def)
  show ?thesis
    unfolding monthly_summary_Int32 [OF months] keys
    by (simp add: vals n float64_sum_small [OF small_100] month_names_def)
qed

lemma cents_filtered: "filtered_df cents sel_2023 = cents"
  by (simp add: filtered_df_def year_mask_def sel_2023_def cents_def row_01_def row_02_def
      row_03_def)

lemma cents_dtype: "Month_dtype cents = Int32"
  by (simp add: Month_dtype_def cents_def row_01_def row_02_def row_03_def)

lemma cents_by_month: "sales_by_month float64_sum cents = [(1, d03_next), (2, d03)]"
proof -
  have keys: "group_keys Month cents = [1, 2]"
    by (simp add: group_keys_def List.map_filter_def cents_def row_01_def row_02_def
        row_03_def)
  have jan: "List.map_filter Sales (group_rows Month 1 cents) = [d02, d01]"
    and feb: "List.map_filter Sales (group_rows Month 2 cents) = [d03]"
    by (simp_all add: group_rows_def List.map_filter_def cents_def row_01_def row_02_def
        row_03_def)
  show ?thesis
    by (simp add: sales_by_month_def groupby_sum_def nansum_def keys jan feb
        float64_sum_d02_d01 float64_sum_single [OF fl64_d03])
qed

lemma cents_sales:
  "List.map_filter Sales cents = [d03, d02, d01]"
  "total_nulls_as_zero Sales cents = d03 + d02 + d01"
  by (simp_all add: List.map_filter_def total_nulls_as_zero_def cents_def row_01_def
      row_02_def row_03_def)

text \<open>
  C1. The monthly totals, summed over the months of the summary, are claimed to equal the
  sum of the sales of the whole filtered frame for every filtered frame. With amounts in
  cents the sums are rounded and the two sides differ. In the frame \<open>cents\<close> January
  has 0.2 and 0.1, whose total is 0.30000000000000004, and February has 0.3: the exact
  sum of the two totals is not the exact sum of the three sales, and added in float64 the
  totals give 0.6000000000000001 and the sales 0.6.
\<close>

theorem monthly_total_sales_rounded:
  "monthly_summary (Month_dtype cents) float64_sum (filtered_df cents sel_2023) =
      Inr [\<lparr>MonthLabel = ''Jan'', TotalSales = d03_next, RestaurantCount = 2\<rparr>,
           \<lparr>MonthLabel = ''Feb'', TotalSales = d03, RestaurantCount = 1\<rparr>]
   \<and> sum_list (map snd (sales_by_month float64_sum (filtered_df cents sel_2023))) \<noteq>
      total_nulls_as_zero Sales (filtered_df cents sel_2023)
   \<and> accumulate (map snd (sales_by_month float64_sum (filtered_df cents sel_2023))) = d06_next
   \<and> accumulate (List.map_filter Sales (filtered_df cents sel_2023)) = d06
   \<and> accumulate (map snd (sales_by_month float64_sum (filtered_df cents sel_2023))) \<noteq>
      accumulate (List.map_filter Sales (filtered_df cents sel_2023))"
proof -
  have months: "\<forall>r\<in>set cents. \<forall>m. Month r = Some m \<longrightarrow> 1 \<le> m \<and> m \<le> 12"
    by (simp add: cents_def row_01_def row_02_def row_03_def)
  have keys: "group_keys Month cents = [1, 2]"
    by (simp add: group_keys_def List.map_filter_def cents_def row_01_def row_02_def
        row_03_def)
  have jan: "List.map_filter Sales (group_rows Month 1 cents) = [d02, d01]"
    and feb: "List.map_filter Sales (group_rows Month 2 cents) = [d03]"
    by (simp_all add: group_rows_def List.map_filter_def cents_def row_01_def row_02_def
        row_03_def)
  have n: "nunique Rest_Key (group_rows Month 1 cents) = 2"
    "nunique Rest_Key (group_rows Month 2 cents) = 1"
    by (simp_all add: group_rows_def nunique_def List.map_filter_def cents_def row_01_def
        row_02_def row_03_def)
  have tbl: "monthly_summary Int32 float64_sum cents =
      Inr [\<lparr>MonthLabel = ''Jan'', TotalSales = d03_next, RestaurantCount = 2\<rparr>,
           \<lparr>MonthLabel = ''Feb'', TotalSales = d03, RestaurantCount = 1\<rparr>]"
    unfolding monthly_summary_Int32 [OF months] keys
    by (simp add: jan feb n float64_sum_d02_d01 float64_sum_single [OF fl64_d03]
        month_names_def)
  show ?thesis
    unfolding cents_filtered cents_by_month cents_sales cents_dtype
    using tbl cents_values_differ
    by (simp add: accumulate_cents_totals accumulate_cents_rows)
qed

text \<open>
  C1, as amended. When the sales of the filtered frame are whole numbers whose absolute
  values add up to at most \<open>2 ^ 53\<close>, the monthly totals, summed over the months of the
  summary, equal the sum of the sales of the whole filtered frame, a null sale counting
  as 0: as exact sums, as sums in any arithmetic that is exact on such numbers, and for
  the Total Sales column of the table \<open>monthly_summary\<close> whenever the script builds
  it. The filtered frame is the one the script computes from the two files: a row that
  passed the year filter has a Year, hence a Date and a Month, so the grouping by Month
  drops no row. The kernel of the column is any that is exact on such numbers, as the
  int64 and the float64 kernels are.
\<close>

theorem monthly_total_sales_is_filtered_sum:
  assumes "load_data to_numeric to_datetime csv xlsx = Inr (actuals_df, location_df, merged_df)"
    and "exact_on_small_integers ksum" and "exact_on_small_integers summed"
    and "small_integers (List.map_filter Sales (filtered_df merged_df sel))"
  shows "sum_list (map snd (sales_by_month ksum (filtered_df merged_df sel))) =
       total_nulls_as_zero Sales (filtered_df merged_df sel)
     \<and> summed (map snd (sales_by_month ksum (filtered_df merged_df sel))) =
       summed (List.map_filter Sales (filtered_df merged_df sel))
     \<and> (monthly_summary dt ksum (filtered_df merged_df sel) = Inr tbl \<longrightarrow>
         sum_list (map TotalSales tbl) = total_nulls_as_zero Sales (filtered_df merged_df sel))"
proof -
  let ?f = "filtered_df merged_df sel"
  have m: "merged_df = join_rows (map (coerce_row to_numeric to_datetime) csv) xlsx"
    using assms(1) by (rule load_data_merged)
  have "Month r \<noteq> None" if "r \<in> set ?f" for r
  proof -
    from that have "r \<in> set merged_df" and "year_mask (selected_year_range sel) r"
      using filtered_df_subset_year by fastforce+
    then show ?thesis
      using merged_month_of_year [of r] unfolding m
      by (auto simp: year_mask_def split: option.splits)
  qed
  then have all: "filter (\<lambda>r. Month r \<noteq> None) ?f = ?f"
    by (simp add: filter_id_conv)
  have "sum_list (map snd (groupby_sum ksum Month Sales ?f)) =
      total_nulls_as_zero Sales (filter (\<lambda>r. Month r \<noteq> None) ?f)"
    by (rule groupby_sum_total [OF assms(2,4)])
  then have exact: "sum_list (map snd (sales_by_month ksum ?f)) = total_nulls_as_zero Sales ?f"
    unfolding sales_by_month_def all .
  have "small_integers (map snd (sales_by_month ksum ?f))"
    using groupby_sum_small [OF assms(2,4), of Month] by (simp add: sales_by_month_def)
  then have "summed (map snd (sales_by_month ksum ?f)) = sum_list (map snd (sales_by_month ksum ?f))"
    by (rule exact_on_small [OF assms(3)])
  moreover have "summed (List.map_filter Sales ?f) = sum_list (List.map_filter Sales ?f)"
    by (rule exact_on_small [OF assms(3,4)])
  ultimately have rounded: "summed (map snd (sales_by_month ksum ?f)) =
      summed (List.map_filter Sales ?f)"
    using exact by (simp add: sum_list_map_filter)
  have "sum_list (map TotalSales tbl) = total_nulls_as_zero Sales ?f"
    if "monthly_summary dt ksum ?f = Inr tbl"
    using monthly_summary_columns(1) [OF that] exact by simp
  with exact rounded show ?thesis by blast
qed

theorem monthly_total_sales_is_filtered_sum_witness:
  "load_data sample_to_numeric sample_to_datetime [csv_bistro, csv_tapas] sample_xlsx =
      Inr (map (coerce_row sample_to_numeric sample_to_datetime) [csv_bistro, csv_tapas],
           sample_xlsx, [row_bistro, row_tapas])
   \<and> small_integers (List.map_filter Sales (filtered_df [row_bistro, row_tapas] sel_france))
   \<and> monthly_summary Int32 float64_sum (filtered_df [row_bistro, row_tapas] sel_france) =
      Inr [\<lparr>MonthLabel = ''Jan'', TotalSales = 100, RestaurantCount = 1\<rparr>]
   \<and> sum_list (map snd (sales_by_month float64_sum
        (filtered_df [row_bistro, row_tapas] sel_france))) =
      total_nulls_as_zero Sales (filtered_df [row_bistro, row_tapas] sel_france)
   \<and> accumulate (map snd (sales_by_month float64_sum
        (filtered_df [row_bistro, row_tapas] sel_france))) =
      accumulate (List.map_filter Sales (filtered_df [row_bistro, row_tapas] sel_france))
   \<and> sum_list (map TotalSales
        [\<lparr>MonthLabel = ''Jan'', TotalSales = 100, RestaurantCount = 1\<rparr>]) =
      total_nulls_as_zero Sales (filtered_df [row_bistro, row_tapas] sel_france)"
proof -
  have small: "small_integers (List.map_filter Sales (filtered_df [row_bistro, row_tapas] sel_france))"
    unfolding sample_filtered
    by (simp add: small_integers_def List.map_filter_def row_bistro_def)
  have tbl: "monthly_summary Int32 float64_sum (filtered_df [row_bistro, row_tapas] sel_france) =
      Inr [\<lparr>MonthLabel = ''Jan'', TotalSales = 100, RestaurantCount = 1\<rparr>]"
    by (simp add: sample_filtered sample_monthly)
  show ?thesis
    using sample_load small tbl
      monthly_total_sales_is_filtered_sum
        [OF sample_load float64_sum_exact accumulate_exact small, of Int32
          "[\<lparr>MonthLabel = ''Jan'', TotalSales = 100, RestaurantCount = 1\<rparr>]"]
    by blast
qed




section \<open>The whole run\<close>

lemma dashboard_loaded:
  assumes "load_data to_numeric to_datetime csv xlsx = Inr (actuals_df, location_df, merged_df)"
  shows "dashboard to_numeric to_datetime sales_sum customers_sum tie csv xlsx sel =
     (case year_bounds merged_df of
        Inl e \<Rightarrow> Inl e
      | Inr bounds \<Rightarrow>
          (case monthly_summary (Month_dtype merged_df) sales_sum (filtered_df merged_df sel) of
             Inl e \<Rightarrow> Inl e
           | Inr ms \<Rightarrow>
               Inr \<lparr>monthly_summary_table = ms,
                    customers_by_restaurant_table =
                      customers_by_restaurant customers_sum tie (filtered_df merged_df sel),
                    customers_by_country_table =
                      customers_by_country customers_sum tie (filtered_df merged_df sel)\<rparr>))"
  by (simp add: dashboard_def assms Let_def split: sum.splits)

lemma dashboard_not_loaded:
  "load_data to_numeric to_datetime csv xlsx = Inl e \<Longrightarrow>
     dashboard to_numeric to_datetime sales_sum customers_sum tie csv xlsx sel = Inl e"
  by (simp add: dashboard_def)

lemma year_bounds_ValueError_iff:
  "year_bounds merged = Inl ValueError \<longleftrightarrow> (\<forall>r\<in>set merged. Year r = None)"
proof -
  have "List.map_filter Year merged = [] \<longleftrightarrow> (\<forall>r\<in>set merged. Year r = None)"
    using set_map_filter [of Year merged] by (auto simp flip: set_empty)
  then show ?thesis
    by (auto simp: year_bounds_def split: list.splits)
qed

lemma year_bounds_error: "year_bounds merged = Inl e \<Longrightarrow> e = ValueError"
  by (auto simp: year_bounds_def split: list.splits)

text \<open>
  One date that does not parse is enough to stop every run whose filtered frame is not
  empty: the Month column of the whole frame is then float64.
\<close>

lemma dashboard_unparseable_date:
  assumes load: "load_data to_numeric to_datetime csv xlsx = Inr (actuals_df, location_df, merged_df)"
    and bad: "\<exists>c\<in>set csv. to_datetime (csv_Date c) = None"
    and ne: "filtered_df merged_df sel \<noteq> []"
  shows "dashboard to_numeric to_datetime sales_sum customers_sum tie csv xlsx sel = Inl TypeError"
proof -
  have m: "merged_df = join_rows (map (coerce_row to_numeric to_datetime) csv) xlsx"
    using load by (rule load_data_merged)
  from ne obtain r where r: "r \<in> set (filtered_df merged_df sel)"
    by (cases "filtered_df merged_df sel") auto
  then have rm: "r \<in> set merged_df" and ry: "year_mask (selected_year_range sel) r"
    using filtered_df_subset_year by fastforce+
  from ry have y: "Year r \<noteq> None"
    by (auto simp: year_mask_def split: option.splits)
  then have "year_bounds merged_df \<noteq> Inl ValueError"
    using rm by (auto simp: year_bounds_ValueError_iff)
  then obtain b where yb: "year_bounds merged_df = Inr b"
    using year_bounds_error by (cases "year_bounds merged_df") auto
  from rm y have "Month r \<noteq> None"
    unfolding m by (rule merged_month_of_year)
  with r have "set (group_keys Month (filtered_df merged_df sel)) \<noteq> {}"
    by (auto simp: set_group_keys)
  then have keys: "group_keys Month (filtered_df merged_df sel) \<noteq> []" by auto
  have dt: "Month_dtype merged_df = Float64"
    using bad unfolding m by (simp add: Month_dtype_merged)
  show ?thesis
    unfolding dashboard_loaded [OF load] yb dt monthly_summary_Float64 using keys by simp
qed

text \<open>
  C5. The monthly summary is to have one row per distinct month of the filtered frame, in
  ascending order of the month number, the month \<open>m\<close> labelled with the \<open>m\<close>-th of
  Jan .. Dec, and no row for a month without rows. The script builds this table when
  every date of the file parses (\<open>monthly_summary_Int32\<close>). It does not when one
  date fails to parse: on the sample below the file has a transaction of January 2023 and
  one whose date is not a date; the filtered frame is the January row alone, for which the
  table would be the single row (Jan, 100, 1), and the run stops with TypeError at the
  labels, since the null date has made the Month column float64 and
  \<^verbatim>\<open>month_names[m-1]\<close> is indexed with a float. This is so whatever the sum kernels
  and the order of ties.
\<close>

theorem monthly_summary_unparseable_date_TypeError:
  "load_data sample_to_numeric sample_to_datetime [csv_bistro, csv_no_date] sample_xlsx =
      Inr (map (coerce_row sample_to_numeric sample_to_datetime) [csv_bistro, csv_no_date],
           sample_xlsx, [row_bistro, row_no_date])
   \<and> filtered_df [row_bistro, row_no_date] sel_france = [row_bistro]
   \<and> monthly_summary Int32 float64_sum [row_bistro] =
       Inr [\<lparr>MonthLabel = ''Jan'', TotalSales = 100, RestaurantCount = 1\<rparr>]
   \<and> monthly_summary (Month_dtype [row_bistro, row_no_date]) sales_sum
       (filtered_df [row_bistro, row_no_date] sel_france) = Inl TypeError
   \<and> dashboard sample_to_numeric sample_to_datetime sales_sum customers_sum tie
       [csv_bistro, csv_no_date] sample_xlsx sel_france = Inl TypeError"
proof -
  have keys: "group_keys Month [row_bistro] = [1]"
    by (simp add: group_keys_def List.map_filter_def row_bistro_def)
  have dt: "Month_dtype [row_bistro, row_no_date] = Float64"
    by (simp add: Month_dtype_def row_no_date_def)
  have yb: "year_bounds [row_bistro, row_no_date] = Inr (2023, 2023)"
    by (simp add: year_bounds_def List.map_filter_def row_bistro_def row_no_date_def)
  have ms: "monthly_summary (Month_dtype [row_bistro, row_no_date]) sales_sum
      (filtered_df [row_bistro, row_no_date] sel_france) = Inl TypeError"
    unfolding sample_filtered_no_date dt monthly_summary_Float64 keys by simp
  have "dashboard sample_to_numeric sample_to_datetime sales_sum customers_sum tie
       [csv_bistro, csv_no_date] sample_xlsx sel_france = Inl TypeError"
    unfolding dashboard_loaded [OF sample_load_no_date] yb ms by simp
  with ms show ?thesis
    using sample_load_no_date sample_filtered_no_date sample_monthly by simp
qed

text \<open>
  C9. When the date of every transaction fails to parse, the run stops with an error
  before the filter and the aggregations: the Year column is all null, and when the two
  files load, the bounds of the year slider cannot be computed (ValueError of
  \<open>int\<close> on NaN). The bounds fail only then: once the files are loaded, a date that
  parses is what the script needs to get past the slider.
\<close>

theorem all_dates_unparseable_aborts:
  "((\<forall>c\<in>set csv. to_datetime (csv_Date c) = None) \<longrightarrow>
      dashboard to_numeric to_datetime sales_sum customers_sum tie csv xlsx sel =
        Inl ValueError)
   \<and> (load_data to_numeric to_datetime csv xlsx = Inr (actuals_df, location_df, merged_df)
        \<longrightarrow> (year_bounds merged_df = Inl ValueError)
              = (\<forall>c\<in>set csv. to_datetime (csv_Date c) = None))"
proof (intro conjI impI)
  show yb: "(year_bounds merged_df = Inl ValueError)
      = (\<forall>c\<in>set csv. to_datetime (csv_Date c) = None)"
    if "load_data to_numeric to_datetime csv xlsx = Inr (actuals_df, location_df, merged_df)"
    for actuals_df location_df merged_df
    using load_data_merged [OF that]
    by (simp add: year_bounds_ValueError_iff merged_years_null_iff)
  assume all: "\<forall>c\<in>set csv. to_datetime (csv_Date c) = None"
  show "dashboard to_numeric to_datetime sales_sum customers_sum tie csv xlsx sel =
      Inl ValueError"
  proof (cases "load_data to_numeric to_datetime csv xlsx")
    case (Inl e)
    then show ?thesis
      using load_data_error [OF Inl] by (simp add: dashboard_not_loaded)
  next
    case (Inr x)
    then obtain a l m where x: "load_data to_numeric to_datetime csv xlsx = Inr (a, l, m)"
      by (cases x) auto
    with all yb have "year_bounds m = Inl ValueError" by blast
    then show ?thesis
      by (simp add: dashboard_loaded [OF x])
  qed
qed

lemma sample_load_only_no_date:
  "load_data sample_to_numeric sample_to_datetime [csv_no_date] sample_xlsx =
     Inr (map (coerce_row sample_to_numeric sample_to_datetime) [csv_no_date],
          sample_xlsx, [row_no_date])"
proof -
  have "join_rows (map (coerce_row sample_to_numeric sample_to_datetime) [csv_no_date])
      sample_xlsx = [row_no_date]"
    by (simp add: join_rows_def left_rows_def coerce_row_def attach_def sample_to_numeric_def
        sample_to_datetime_def csv_no_date_def sample_xlsx_def row_no_date_def)
  then show ?thesis
    unfolding load_data_eq using sample_no_clash(3) by simp
qed

theorem all_dates_unparseable_aborts_witness:
  "sample_to_datetime (csv_Date csv_no_date) = None
   \<and> load_data sample_to_numeric sample_to_datetime [csv_no_date] sample_xlsx =
       Inr (map (coerce_row sample_to_numeric sample_to_datetime) [csv_no_date],
            sample_xlsx, [row_no_date])
   \<and> year_bounds [row_no_date] = Inl ValueError
   \<and> dashboard sample_to_numeric sample_to_datetime float64_sum float64_sum tie_table_order
       [csv_no_date] sample_xlsx sel_france = Inl ValueError
   \<and> sample_to_datetime (csv_Date csv_bistro) \<noteq> None
   \<and> year_bounds [row_bistro, row_no_date] \<noteq> Inl ValueError"
proof -
  have h: "sample_to_datetime (csv_Date csv_no_date) = None"
    by (simp add: sample_to_datetime_def csv_no_date_def)
  have g: "sample_to_datetime (csv_Date csv_bistro) \<noteq> None"
    by (simp add: sample_to_datetime_def csv_bistro_def)
  from h have all: "\<forall>c\<in>set [csv_no_date]. sample_to_datetime (csv_Date c) = None"
    by simp
  from g have some: "\<not> (\<forall>c\<in>set [csv_bistro, csv_no_date]. sample_to_datetime (csv_Date c) = None)"
    by simp
  show ?thesis
    using h g all some sample_load_only_no_date sample_load_no_date
      all_dates_unparseable_aborts
        [where csv = "[csv_no_date]" and to_datetime = sample_to_datetime
          and to_numeric = sample_to_numeric and xlsx = sample_xlsx
          and sales_sum = float64_sum and customers_sum = float64_sum
          and tie = tie_table_order and sel = sel_france and merged_df = "[row_no_date]"]
      all_dates_unparseable_aborts
        [where csv = "[csv_bistro, csv_no_date]" and to_datetime = sample_to_datetime
          and to_numeric = sample_to_numeric and xlsx = sample_xlsx
          and merged_df = "[row_bistro, row_no_date]"]
    by blast
qed

section \<open>The customer tables\<close>

lemma sum_list_insort_key:
  "sum_list (map g (insort_key f x xs)) = (g x :: rat) + sum_list (map g xs)"
  by (induction xs) simp_all

lemma sum_list_sort_key: "sum_list (map g (sort_key f xs)) = (sum_list (map g xs) :: rat)"
  by (induction xs) (simp_all add: sum_list_insort_key)

text \<open>
  Whatever the order of ties, \<^verbatim>\<open>sort_values\<close> returns the rows of the table, each
  once, in descending order of the total.
\<close>

lemma sort_values_desc_total:
  "sum_list (map snd (sort_values_desc tie tbl)) = sum_list (map snd tbl)"
  by (simp add: sort_values_desc_def sum_list_sort_key)

lemma sort_values_desc_set: "set (sort_values_desc tie tbl) = set tbl"
  by (simp add: sort_values_desc_def)

lemma sort_values_desc_length: "length (sort_values_desc tie tbl) = length tbl"
  by (simp add: sort_values_desc_def)

lemma sort_values_desc_distinct:
  "distinct (map fst tbl) \<Longrightarrow> distinct (map fst (sort_values_desc tie tbl))"
  by (simp add: sort_values_desc_def distinct_map)

lemma sort_values_desc_sorted:
  "sorted (map (\<lambda>row. - snd row) (sort_values_desc tie tbl))"
  by (simp add: sort_values_desc_def)

lemma sort_values_desc_small:
  "small_integers (map snd tbl) \<Longrightarrow> small_integers (map snd (sort_values_desc tie tbl))"
proof -
  have "sum_list (map abs (map snd (sort_values_desc tie tbl))) =
      sum_list (map abs (map snd tbl))"
    by (simp add: sort_values_desc_def comp_def sum_list_sort_key)
  moreover have "set (map snd (sort_values_desc tie tbl)) = set (map snd tbl)"
    by (simp add: sort_values_desc_set)
  ultimately show "small_integers (map snd tbl) \<Longrightarrow>
      small_integers (map snd (sort_values_desc tie tbl))"
    unfolding small_integers_def list_all_iff by simp
qed

text \<open>
  The rankings lose no behaviour of the sorting kernel: every arrangement of the rows of
  a table in descending order of the total is what \<open>sort_values_desc\<close> returns for the
  ranking that numbers the rows in that arrangement.
\<close>

lemma position_Cons: "position (x # p) k = (if x = k then 0 else Suc (position p k))"
  by (simp add: position_def)

lemma position_nth: "distinct p \<Longrightarrow> i < length p \<Longrightarrow> position p (p ! i) = i"
proof (induction p arbitrary: i)
  case Nil
  then show ?case by simp
next
  case (Cons x p)
  show ?case
  proof (cases i)
    case 0
    then show ?thesis by (simp add: position_Cons)
  next
    case (Suc n)
    with Cons.prems have n: "n < length p" and "x \<notin> set p" and d: "distinct p"
      by simp_all
    then have "x \<noteq> p ! n" by (metis nth_mem)
    with Suc Cons.IH [OF d n] show ?thesis by (simp add: position_Cons)
  qed
qed

lemma nth_position: "k \<in> set p \<Longrightarrow> p ! position p k = k"
proof (induction p)
  case Nil
  then show ?case by simp
next
  case (Cons x p)
  then show ?case
    by (cases "x = k") (simp_all add: position_Cons)
qed

lemma position_inj: "inj_on (position p) (set p)"
proof (rule inj_onI)
  fix x y
  assume "x \<in> set p" and "y \<in> set p" and "position p x = position p y"
  then show "x = y"
    by (metis nth_position)
qed

lemma map_position: "distinct p \<Longrightarrow> map (position p) p = [0..<length p]"
  by (rule nth_equalityI) (simp_all add: position_nth)

lemma sort_values_desc_any_order:
  assumes "distinct tbl" and "distinct p" and "set p = set tbl"
    and "sorted (map (\<lambda>row. - snd row) p)"
  shows "sort_values_desc (\<lambda>tbl. position p) tbl = p"
proof -
  have "mset tbl = mset p"
    using assms(1,2,3) by (metis set_eq_iff_mset_eq_distinct)
  moreover have "inj_on (position p) (set tbl)"
    unfolding assms(3) [symmetric] by (rule position_inj)
  moreover have "sorted (map (position p) p)"
    by (simp add: map_position [OF assms(2)])
  ultimately have "sort_key (position p) tbl = p"
    by (rule sort_key_inj_key_eq)
  then show ?thesis
    by (simp add: sort_values_desc_def sort_key_id_if_sorted [OF assms(4)])
qed

lemma customers_by_restaurant_total:
  assumes "exact_on_small_integers ksum" and "small_integers (List.map_filter Customers filtered)"
  shows "sum_list (map snd (customers_by_restaurant ksum tie filtered)) =
     total_nulls_as_zero Customers (filter (\<lambda>r. Restaurant_Name r \<noteq> None) filtered)"
  by (simp add: customers_by_restaurant_def sort_values_desc_total groupby_sum_total [OF assms])

lemma customers_by_country_total:
  assumes "exact_on_small_integers ksum" and "small_integers (List.map_filter Customers filtered)"
  shows "sum_list (map snd (customers_by_country ksum tie filtered)) =
     total_nulls_as_zero Customers (filter (\<lambda>r. Country r \<noteq> None) filtered)"
  by (simp add: customers_by_country_def sort_values_desc_total groupby_sum_total [OF assms])

lemma float64_sum_10: "float64_sum [10] = 10"
  by (rule float64_sum_single) (use fl64_of_int [of 10] in simp)

lemma float64_sum_5: "float64_sum [5] = 5"
  by (rule float64_sum_single) (use fl64_of_int [of 5] in simp)

lemma int64_sum_10: "int64_sum [10] = 10"
  by (simp add: int64_sum_def)

lemma unnamed_filtered: "filtered_df [row_unnamed] sel_france = [row_unnamed]"
  by (simp add: filtered_df_def year_mask_def isin_def sel_france_def row_unnamed_def)

lemma unnamed_by_country:
  "customers_by_country ksum tie [row_unnamed] = [(''France'', ksum [10])]"
  by (simp add: customers_by_country_def sort_values_desc_def groupby_sum_def group_keys_def
      group_rows_def nansum_def List.map_filter_def row_unnamed_def)

lemma unnamed_by_restaurant: "customers_by_restaurant ksum tie [row_unnamed] = []"
  by (simp add: customers_by_restaurant_def sort_values_desc_def groupby_sum_def
      group_keys_def List.map_filter_def row_unnamed_def)

lemma cents_by_country:
  "customers_by_country float64_sum tie cents = [(''France'', d03_next), (''Spain'', d03)]"
proof -
  have keys: "group_keys Country cents = [''France'', ''Spain'']"
    by (simp add: group_keys_def List.map_filter_def cents_def row_01_def row_02_def
        row_03_def)
  have fr: "List.map_filter Customers (group_rows Country ''France'' cents) = [d02, d01]"
    and sp: "List.map_filter Customers (group_rows Country ''Spain'' cents) = [d03]"
    by (simp_all add: group_rows_def List.map_filter_def cents_def row_01_def row_02_def
        row_03_def)
  have tbl: "groupby_sum float64_sum Country Customers cents =
      [(''France'', d03_next), (''Spain'', d03)]"
    by (simp add: groupby_sum_def nansum_def keys fr sp float64_sum_d02_d01
        float64_sum_single [OF fl64_d03])
  show ?thesis
    unfolding customers_by_country_def tbl sort_values_desc_def
    using cents_values_differ(3) by simp
qed

lemma cents_by_restaurant:
  "customers_by_restaurant float64_sum tie cents =
     [(''Tapas B'', d03), (''Bistro A'', d02), (''Cafe C'', d01)]"
proof -
  have keys: "group_keys Restaurant_Name cents = [''Bistro A'', ''Cafe C'', ''Tapas B'']"
    by (simp add: group_keys_def List.map_filter_def cents_def row_01_def row_02_def
        row_03_def)
  have a: "List.map_filter Customers (group_rows Restaurant_Name ''Bistro A'' cents) = [d02]"
    and c: "List.map_filter Customers (group_rows Restaurant_Name ''Cafe C'' cents) = [d01]"
    and t: "List.map_filter Customers (group_rows Restaurant_Name ''Tapas B'' cents) = [d03]"
    by (simp_all add: group_rows_def List.map_filter_def cents_def row_01_def row_02_def
        row_03_def)
  have tbl: "groupby_sum float64_sum Restaurant_Name Customers cents =
      [(''Bistro A'', d02), (''Cafe C'', d01), (''Tapas B'', d03)]"
    by (simp add: groupby_sum_def nansum_def keys a c t float64_sum_single [OF fl64_d01]
        float64_sum_single [OF fl64_d02] float64_sum_single [OF fl64_d03])
  have lt: "d01 < d02" "d02 < d03" "d01 < d03"
    using cents_values_differ(4,5) by simp_all
  show ?thesis
    unfolding customers_by_restaurant_def tbl sort_values_desc_def
    using lt by auto
qed

text \<open>
  C2. The grand total of the customers by country is claimed to equal the grand total of
  the customers by restaurant for every filtered frame. Each table leaves out the rows
  whose own key is null, so the two differ as soon as a row has one key and not the other:
  for a transaction of a restaurant whose location row has a country and no name, the
  totals are 10 and 0, with either kernel and any order of ties. They also differ when
  every row has both keys and the numbers are not whole: in the frame \<open>cents\<close> France
  has 0.2 and 0.1, whose total is 0.30000000000000004, and Spain has 0.3, while the three
  restaurants have 0.3, 0.2 and 0.1. The exact sums of the two tables differ, and added
  in float64 the table by country gives 0.6000000000000001 and the table by restaurant
  0.6.
\<close>

theorem customer_grand_totals_differ:
  "(\<forall>tie. sum_list (map snd (customers_by_country float64_sum tie
              (filtered_df [row_unnamed] sel_france))) = 10
         \<and> sum_list (map snd (customers_by_restaurant float64_sum tie
              (filtered_df [row_unnamed] sel_france))) = 0
         \<and> sum_list (map snd (customers_by_country int64_sum tie
              (filtered_df [row_unnamed] sel_france))) = 10
         \<and> sum_list (map snd (customers_by_restaurant int64_sum tie
              (filtered_df [row_unnamed] sel_france))) = 0)
   \<and> (\<forall>tie tie'.
        sum_list (map snd (customers_by_country float64_sum tie
              (filtered_df [row_unnamed] sel_france))) \<noteq>
        sum_list (map snd (customers_by_restaurant float64_sum tie'
              (filtered_df [row_unnamed] sel_france))))
   \<and> (\<forall>tie. customers_by_country float64_sum tie (filtered_df cents sel_2023) =
              [(''France'', d03_next), (''Spain'', d03)]
         \<and> customers_by_restaurant float64_sum tie (filtered_df cents sel_2023) =
              [(''Tapas B'', d03), (''Bistro A'', d02), (''Cafe C'', d01)])
   \<and> (\<forall>tie tie'.
        sum_list (map snd (customers_by_country float64_sum tie
              (filtered_df cents sel_2023))) \<noteq>
        sum_list (map snd (customers_by_restaurant float64_sum tie'
              (filtered_df cents sel_2023)))
      \<and> accumulate (map snd (customers_by_country float64_sum tie
              (filtered_df cents sel_2023))) = d06_next
      \<and> accumulate (map snd (customers_by_restaurant float64_sum tie'
              (filtered_df cents sel_2023))) = d06
      \<and> accumulate (map snd (customers_by_country float64_sum tie
              (filtered_df cents sel_2023))) \<noteq>
        accumulate (map snd (customers_by_restaurant float64_sum tie'
              (filtered_df cents sel_2023))))"
  unfolding unnamed_filtered unnamed_by_country unnamed_by_restaurant cents_filtered
    cents_by_country cents_by_restaurant
  using cents_values_differ(1,2)
  by (simp add: float64_sum_10 int64_sum_10 accumulate_cents_totals accumulate_cents_rows)

text \<open>
  C2, as amended. When every row of the filtered frame has a Country exactly when it has
  a Restaurant_Name (as the rows of a left join with a complete location sheet do), and
  the customers of the filtered frame are whole numbers whose absolute values add up to
  at most \<open>2 ^ 53\<close>, the two grand totals are equal: as exact sums, and as sums in any
  arithmetic that is exact on such numbers. The kernel of the column is any that is exact
  on such numbers, as the int64 and the float64 kernels are, and the order of ties is any.
\<close>

theorem customer_grand_totals_agree:
  assumes "\<forall>r\<in>set filtered. Country r = None \<longleftrightarrow> Restaurant_Name r = None"
    and "exact_on_small_integers ksum" and "exact_on_small_integers summed"
    and "small_integers (List.map_filter Customers filtered)"
  shows "sum_list (map snd (customers_by_country ksum tie filtered)) =
       sum_list (map snd (customers_by_restaurant ksum tie' filtered))
     \<and> summed (map snd (customers_by_country ksum tie filtered)) =
       summed (map snd (customers_by_restaurant ksum tie' filtered))"
proof -
  from assms(1) have "filter (\<lambda>r. Country r \<noteq> None) filtered =
      filter (\<lambda>r. Restaurant_Name r \<noteq> None) filtered"
    by (intro filter_cong) auto
  then have exact: "sum_list (map snd (customers_by_country ksum tie filtered)) =
       sum_list (map snd (customers_by_restaurant ksum tie' filtered))"
    by (simp add: customers_by_country_total [OF assms(2,4)]
        customers_by_restaurant_total [OF assms(2,4)])
  have "small_integers (map snd (customers_by_country ksum tie filtered))"
    unfolding customers_by_country_def
    by (rule sort_values_desc_small) (rule groupby_sum_small [OF assms(2,4)])
  then have c: "summed (map snd (customers_by_country ksum tie filtered)) =
      sum_list (map snd (customers_by_country ksum tie filtered))"
    by (rule exact_on_small [OF assms(3)])
  have "small_integers (map snd (customers_by_restaurant ksum tie' filtered))"
    unfolding customers_by_restaurant_def
    by (rule sort_values_desc_small) (rule groupby_sum_small [OF assms(2,4)])
  then have r: "summed (map snd (customers_by_restaurant ksum tie' filtered)) =
      sum_list (map snd (customers_by_restaurant ksum tie' filtered))"
    by (rule exact_on_small [OF assms(3)])
  from exact c r show ?thesis by simp
qed

theorem customer_grand_totals_agree_witness:
  "list_all (\<lambda>r. (Country r = None) = (Restaurant_Name r = None)) [row_bistro, row_tapas]
   \<and> small_integers (List.map_filter Customers [row_bistro, row_tapas])
   \<and> sum_list (map snd (customers_by_country float64_sum tie_table_order
        [row_bistro, row_tapas])) =
     sum_list (map snd (customers_by_restaurant float64_sum tie_reversed
        [row_bistro, row_tapas]))
   \<and> accumulate (map snd (customers_by_country float64_sum tie_table_order
        [row_bistro, row_tapas])) =
     accumulate (map snd (customers_by_restaurant float64_sum tie_reversed
        [row_bistro, row_tapas]))"
proof -
  have h: "\<forall>r\<in>set [row_bistro, row_tapas]. Country r = None \<longleftrightarrow> Restaurant_Name r = None"
    by (simp add: row_bistro_def row_tapas_def)
  have small: "small_integers (List.map_filter Customers [row_bistro, row_tapas])"
    by (simp add: small_integers_def List.map_filter_def row_bistro_def row_tapas_def)
  show ?thesis
    using h small
      customer_grand_totals_agree [OF h float64_sum_exact accumulate_exact small,
        of tie_table_order tie_reversed]
    by (simp add: list_all_iff)
qed

text \<open>
  C10. A row whose group key is null is in no group: the table of customers by restaurant
  is the same with and without a row whose Restaurant_Name is null, and the table by
  country the same with and without a row whose Country is null, so the customers of such
  a row are in no total. The rows of a transaction whose key no location has are such
  rows: the left join gives them null location columns. This is so for every kernel and
  every order of ties.
\<close>

theorem null_group_key_excluded:
  "(Restaurant_Name r = None \<longrightarrow>
      customers_by_restaurant ksum tie (xs @ r # ys) =
      customers_by_restaurant ksum tie (xs @ ys))
   \<and> (Country r = None \<longrightarrow>
      customers_by_country ksum tie (xs @ r # ys) = customers_by_country ksum tie (xs @ ys))
   \<and> (\<not> (\<exists>l\<in>set xlsx. loc_Rest_Key l = Rest_Key a) \<longrightarrow>
      (\<forall>row\<in>set (left_rows a xlsx). Restaurant_Name row = None \<and> Country row = None))"
  by (simp add: customers_by_restaurant_def customers_by_country_def groupby_sum_null_key
      left_rows_unmatched attach_def)

theorem null_group_key_excluded_witness:
  "Restaurant_Name row_unmatched = None \<and> Country row_unmatched = None
   \<and> customers_by_restaurant float64_sum tie_table_order
         ([row_bistro] @ row_unmatched # [row_tapas]) =
       customers_by_restaurant float64_sum tie_table_order ([row_bistro] @ [row_tapas])
   \<and> customers_by_country float64_sum tie_table_order
         ([row_bistro] @ row_unmatched # [row_tapas]) =
       customers_by_country float64_sum tie_table_order ([row_bistro] @ [row_tapas])
   \<and> \<not> list_ex (\<lambda>l. loc_Rest_Key l = csv_Rest_Key csv_unmatched) sample_xlsx
   \<and> list_all (\<lambda>row. Restaurant_Name row = None \<and> Country row = None)
       (left_rows (coerce_row sample_to_numeric sample_to_datetime csv_unmatched) sample_xlsx)"
proof -
  have h: "Restaurant_Name row_unmatched = None" "Country row_unmatched = None"
    by (simp_all add: row_unmatched_def)
  have u: "\<not> (\<exists>l\<in>set sample_xlsx. loc_Rest_Key l =
      Rest_Key (coerce_row sample_to_numeric sample_to_datetime csv_unmatched))"
    by (simp add: sample_xlsx_def coerce_row_def Let_def csv_unmatched_def)
  have k: "Rest_Key (coerce_row sample_to_numeric sample_to_datetime csv_unmatched) =
      csv_Rest_Key csv_unmatched"
    by (simp add: coerce_row_def Let_def)
  show ?thesis
    using h u null_group_key_excluded
      [of row_unmatched float64_sum tie_table_order "[row_bistro]" "[row_tapas]" sample_xlsx
        "coerce_row sample_to_numeric sample_to_datetime csv_unmatched"]
    unfolding list_all_iff list_ex_iff k by blast
qed

subsection \<open>The order of the rows\<close>

lemma sample_tie_filtered:
  "filtered_df [row_tapas, row_bistro_5] sel_all = [row_tapas, row_bistro_5]"
  "filtered_df [row_bistro_5, row_tapas] sel_all = [row_bistro_5, row_tapas]"
  by (simp_all add: filtered_df_def year_mask_def isin_def sel_all_def row_bistro_5_def
      row_tapas_def)

text \<open>
  The grouping puts the groups in ascending order of the name: the two frames, which meet
  the two restaurants in opposite orders, have the same grouped table.
\<close>

lemma sample_tie_grouped:
  "groupby_sum ksum Restaurant_Name Customers [row_tapas, row_bistro_5] =
     [(''Bistro A'', ksum [5]), (''Tapas B'', ksum [5])]"
  "groupby_sum ksum Restaurant_Name Customers [row_bistro_5, row_tapas] =
     [(''Bistro A'', ksum [5]), (''Tapas B'', ksum [5])]"
  by (simp_all add: groupby_sum_def group_keys_def group_rows_def nansum_def
      List.map_filter_def row_bistro_5_def row_tapas_def)

lemma sample_tie_seen:
  "first_seen Restaurant_Name [row_tapas, row_bistro_5] = [''Tapas B'', ''Bistro A'']"
  "first_seen Restaurant_Name [row_bistro_5, row_tapas] = [''Bistro A'', ''Tapas B'']"
  by (simp_all add: first_seen_def List.map_filter_def row_bistro_5_def row_tapas_def)

lemma sample_tie_table_order:
  "sort_values_desc tie_table_order [(''Bistro A'', 5), (''Tapas B'', 5)] =
     [(''Bistro A'', 5), (''Tapas B'', 5)]"
  by (simp add: sort_values_desc_def tie_table_order_def)

lemma sample_tie_reversed:
  "sort_values_desc tie_reversed [(''Bistro A'', 5), (''Tapas B'', 5)] =
     [(''Tapas B'', 5), (''Bistro A'', 5)]"
  by (simp add: sort_values_desc_def tie_reversed_def position_def)

lemma sample_tie_either:
  "sort_values_desc tie [(''Bistro A'', v), (''Tapas B'', v)] =
       [(''Bistro A'', v), (''Tapas B'', v)]
   \<or> sort_values_desc tie [(''Bistro A'', v), (''Tapas B'', v)] =
       [(''Tapas B'', v), (''Bistro A'', v)]"
  by (simp add: sort_values_desc_def)

text \<open>
  C4. The table of customers by restaurant is claimed to be in descending order of the
  total, rows with equal totals in the order in which the filtered frame meets them. The
  second part fails. The sort is handed the grouped table, which is in ascending order of
  the name whatever the order of the rows of the frame, and the order it gives to equal
  totals is its own. Tapas B and Bistro A have 5 customers each; one frame meets Tapas B
  first and the other Bistro A first, and both have the same grouped table. A sort that
  leaves ties as it finds them puts Bistro A first, against the first frame; one that
  reverses them puts Tapas B first, against the second. Whatever the kernel and the order
  of ties, the two frames get the same table, so it is against one of the two.
\<close>

theorem ties_not_in_encounter_order:
  "groupby_sum float64_sum Restaurant_Name Customers
        (filtered_df [row_tapas, row_bistro_5] sel_all) =
      [(''Bistro A'', 5), (''Tapas B'', 5)]
   \<and> groupby_sum float64_sum Restaurant_Name Customers
        (filtered_df [row_bistro_5, row_tapas] sel_all) =
      [(''Bistro A'', 5), (''Tapas B'', 5)]
   \<and> first_seen Restaurant_Name (filtered_df [row_tapas, row_bistro_5] sel_all) =
      [''Tapas B'', ''Bistro A'']
   \<and> first_seen Restaurant_Name (filtered_df [row_bistro_5, row_tapas] sel_all) =
      [''Bistro A'', ''Tapas B'']
   \<and> customers_by_restaurant float64_sum tie_table_order
        (filtered_df [row_tapas, row_bistro_5] sel_all) =
      [(''Bistro A'', 5), (''Tapas B'', 5)]
   \<and> \<not> ties_in_encounter_order
        (first_seen Restaurant_Name (filtered_df [row_tapas, row_bistro_5] sel_all))
        (customers_by_restaurant float64_sum tie_table_order
           (filtered_df [row_tapas, row_bistro_5] sel_all))
   \<and> customers_by_restaurant float64_sum tie_reversed
        (filtered_df [row_bistro_5, row_tapas] sel_all) =
      [(''Tapas B'', 5), (''Bistro A'', 5)]
   \<and> \<not> ties_in_encounter_order
        (first_seen Restaurant_Name (filtered_df [row_bistro_5, row_tapas] sel_all))
        (customers_by_restaurant float64_sum tie_reversed
           (filtered_df [row_bistro_5, row_tapas] sel_all))
   \<and> (\<forall>ksum tie.
        customers_by_restaurant ksum tie (filtered_df [row_tapas, row_bistro_5] sel_all) =
        customers_by_restaurant ksum tie (filtered_df [row_bistro_5, row_tapas] sel_all)
        \<and> \<not> (ties_in_encounter_order
               (first_seen Restaurant_Name (filtered_df [row_tapas, row_bistro_5] sel_all))
               (customers_by_restaurant ksum tie
                  (filtered_df [row_tapas, row_bistro_5] sel_all))
             \<and> ties_in_encounter_order
               (first_seen Restaurant_Name (filtered_df [row_bistro_5, row_tapas] sel_all))
               (customers_by_restaurant ksum tie
                  (filtered_df [row_bistro_5, row_tapas] sel_all))))"
proof -
  have either: "\<not> (ties_in_encounter_order [''Tapas B'', ''Bistro A'']
        (sort_values_desc tie [(''Bistro A'', v), (''Tapas B'', v)])
      \<and> ties_in_encounter_order [''Bistro A'', ''Tapas B'']
        (sort_values_desc tie [(''Bistro A'', v), (''Tapas B'', v)]))"
    for tie :: "(string \<times> rat) list \<Rightarrow> string \<times> rat \<Rightarrow> nat" and v
    using sample_tie_either [of tie v] by (auto simp: position_def)
  show ?thesis
    unfolding sample_tie_filtered customers_by_restaurant_def sample_tie_grouped
      sample_tie_seen float64_sum_5 sample_tie_table_order sample_tie_reversed
    using either by (simp add: position_def)
qed

text \<open>
  C4, as amended. The table of customers by restaurant has one row for each restaurant
  name of the filtered frame, the rows of the grouped table, in descending order of the
  total: a later row never has a larger total than an earlier one. The order of rows with
  equal totals is not determined.
\<close>

theorem customers_by_restaurant_order:
  "(i < j \<and> j < length (customers_by_restaurant ksum tie filtered) \<longrightarrow>
      snd (customers_by_restaurant ksum tie filtered ! j)
        \<le> snd (customers_by_restaurant ksum tie filtered ! i))
   \<and> set (customers_by_restaurant ksum tie filtered) =
       set (groupby_sum ksum Restaurant_Name Customers filtered)
   \<and> distinct (map fst (customers_by_restaurant ksum tie filtered))
   \<and> set (map fst (customers_by_restaurant ksum tie filtered)) =
       {k. \<exists>r\<in>set filtered. Restaurant_Name r = Some k}"
proof (intro conjI impI)
  let ?tbl = "groupby_sum ksum Restaurant_Name Customers filtered"
  let ?res = "customers_by_restaurant ksum tie filtered"
  assume ij: "i < j \<and> j < length ?res"
  have "sorted (map (\<lambda>row. - snd row) ?res)"
    by (simp add: customers_by_restaurant_def sort_values_desc_sorted)
  with ij have "map (\<lambda>row. - snd row) ?res ! i \<le> map (\<lambda>row. - snd row) ?res ! j"
    by (intro sorted_nth_mono) simp_all
  with ij show "snd (?res ! j) \<le> snd (?res ! i)" by simp
next
  show "set (customers_by_restaurant ksum tie filtered) =
      set (groupby_sum ksum Restaurant_Name Customers filtered)"
    by (simp add: customers_by_restaurant_def sort_values_desc_set)
next
  show "distinct (map fst (customers_by_restaurant ksum tie filtered))"
    unfolding customers_by_restaurant_def
    by (rule sort_values_desc_distinct) (simp add: groupby_sum_keys distinct_group_keys)
next
  have "set (map fst (customers_by_restaurant ksum tie filtered)) =
      set (map fst (groupby_sum ksum Restaurant_Name Customers filtered))"
    by (simp add: customers_by_restaurant_def sort_values_desc_set)
  then show "set (map fst (customers_by_restaurant ksum tie filtered)) =
      {k. \<exists>r\<in>set filtered. Restaurant_Name r = Some k}"
    unfolding groupby_sum_keys set_group_keys .
qed

theorem customers_by_restaurant_order_witness:
  "customers_by_restaurant float64_sum tie_table_order [row_bistro, row_tapas] =
      [(''Bistro A'', 10), (''Tapas B'', 5)]
   \<and> (0::nat) < 1
   \<and> 1 < length (customers_by_restaurant float64_sum tie_table_order [row_bistro, row_tapas])
   \<and> snd (customers_by_restaurant float64_sum tie_table_order [row_bistro, row_tapas] ! 1)
       \<le> snd (customers_by_restaurant float64_sum tie_table_order [row_bistro, row_tapas] ! 0)
   \<and> set (map fst (customers_by_restaurant float64_sum tie_table_order
        [row_bistro, row_tapas])) = {''Bistro A'', ''Tapas B''}"
proof -
  have tbl: "groupby_sum float64_sum Restaurant_Name Customers [row_bistro, row_tapas] =
      [(''Bistro A'', 10), (''Tapas B'', 5)]"
    by (simp add: groupby_sum_def group_keys_def group_rows_def nansum_def
        List.map_filter_def row_bistro_def row_tapas_def float64_sum_10 float64_sum_5)
  have res: "customers_by_restaurant float64_sum tie_table_order [row_bistro, row_tapas] =
      [(''Bistro A'', 10), (''Tapas B'', 5)]"
    unfolding customers_by_restaurant_def tbl
    by (simp add: sort_values_desc_def tie_table_order_def)
  have h: "(0::nat) < 1
      \<and> 1 < length (customers_by_restaurant float64_sum tie_table_order [row_bistro, row_tapas])"
    by (simp add: res)
  have keys: "{k. \<exists>r\<in>set [row_bistro, row_tapas]. Restaurant_Name r = Some k} =
      {''Bistro A'', ''Tapas B''}"
    by (auto simp: row_bistro_def row_tapas_def)
  show ?thesis
    using res h keys
      customers_by_restaurant_order [of 0 1 float64_sum tie_table_order "[row_bistro, row_tapas]"]
    by simp
qed

end
